theory Spec2Isabelle
  imports Main "HOL-Library.Word" "HOL-Library.Sublist"
begin

unbundle bit_operations_syntax

section \<open>The TLS transport of mbedtls_transport.c\<close>

text \<open>
  The file embedded here is \<^verbatim>\<open>mbedtls_transport.c\<close>: the functions
  \<^verbatim>\<open>mbedtls_transport_allocate\<close>, \<^verbatim>\<open>mbedtls_transport_connect\<close>,
  \<^verbatim>\<open>mbedtls_transport_send\<close>, \<^verbatim>\<open>mbedtls_transport_recv\<close>,
  \<^verbatim>\<open>mbedtls_transport_disconnect\<close> and the static helpers they call.

  Pointers are options: \<open>None\<close> is \<^verbatim>\<open>NULL\<close>, \<open>Some x\<close> a pointer to \<open>x\<close>.
  C \<^verbatim>\<open>int\<close>, \<^verbatim>\<open>int32_t\<close> and \<^verbatim>\<open>BaseType_t\<close> values are \<open>int\<close>: the code
  compares them, tests their sign and ORs two of them, and never does arithmetic on
  them, so no operation can leave the 32-bit range.
  The socket interface and the TLS engine are not part of the file. Every call the
  file makes to them is written to a trace, in the order of the source, and what such
  a call returns is an input of the model (the \<open>connect_env\<close> of a call of connect,
  the \<open>answer\<close> of an engine operation).
\<close>

subsection \<open>Constants of headers that are not in the source tree\<close>

text \<open>
  The numeric values of the errno names (newlib's \<^verbatim>\<open>errno.h\<close>), of the error codes of
  the engine (\<^verbatim>\<open>mbedtls/ssl.h\<close>, \<^verbatim>\<open>mbedtls/net_sockets.h\<close>), of \<^verbatim>\<open>SOCK_OK\<close> and
  \<^verbatim>\<open>pdFALSE\<close>, and whether \<^verbatim>\<open>MBEDTLS_SSL_MAX_FRAGMENT_LENGTH\<close> is defined, are
  parameters of the model.
\<close>

record platform =
  EINTR :: int
  EAGAIN :: int
  EWOULDBLOCK :: int
  EPIPE :: int
  ECONNRESET :: int
  MBEDTLS_ERR_SSL_WANT_READ :: int
  MBEDTLS_ERR_SSL_WANT_WRITE :: int
  MBEDTLS_ERR_SSL_TIMEOUT :: int
  MBEDTLS_ERR_NET_CONN_RESET :: int
  MBEDTLS_ERR_NET_SEND_FAILED :: int
  MBEDTLS_ERR_NET_RECV_FAILED :: int
  SOCK_OK :: int
  pdFALSE :: int
  MBEDTLS_SSL_MAX_FRAGMENT_LENGTH :: bool

text \<open>The values of newlib and of mbed TLS 2.x, used where a concrete platform is needed.\<close>

definition newlib_mbedtls :: platform where
  "newlib_mbedtls =
     \<lparr>EINTR = 4, EAGAIN = 11, EWOULDBLOCK = 11, EPIPE = 32, ECONNRESET = 104,
      MBEDTLS_ERR_SSL_WANT_READ = - 26880, MBEDTLS_ERR_SSL_WANT_WRITE = - 26752,
      MBEDTLS_ERR_SSL_TIMEOUT = - 26624, MBEDTLS_ERR_NET_CONN_RESET = - 80,
      MBEDTLS_ERR_NET_SEND_FAILED = - 78, MBEDTLS_ERR_NET_RECV_FAILED = - 76,
      SOCK_OK = 0, pdFALSE = 0, MBEDTLS_SSL_MAX_FRAGMENT_LENGTH = True\<rparr>"

text \<open>
  A \<^verbatim>\<open>switch\<close> compiles only if its case labels are pairwise different; of that, the
  classification of errno values needs that no retry label is a reset label.
\<close>

definition errno_labels_ok :: "platform \<Rightarrow> bool" where
  "errno_labels_ok K =
     ({EINTR K, EAGAIN K, EWOULDBLOCK K} \<inter> {EPIPE K, ECONNRESET K} = {})"

text \<open>The engine's retry and timeout codes are error codes, that is, negative.\<close>

definition retry_codes_negative :: "platform \<Rightarrow> bool" where
  "retry_codes_negative K =
     (MBEDTLS_ERR_SSL_TIMEOUT K < 0 \<and> MBEDTLS_ERR_SSL_WANT_READ K < 0
      \<and> MBEDTLS_ERR_SSL_WANT_WRITE K < 0)"

subsection \<open>Data\<close>

datatype TlsTransportStatus =
    TLS_TRANSPORT_SUCCESS
  | TLS_TRANSPORT_INVALID_PARAMETER
  | TLS_TRANSPORT_INSUFFICIENT_MEMORY
  | TLS_TRANSPORT_INVALID_CREDENTIALS
  | TLS_TRANSPORT_HANDSHAKE_FAILED
  | TLS_TRANSPORT_INTERNAL_ERROR
  | TLS_TRANSPORT_CONNECT_FAILURE

datatype fault = NullDereference | AssertionFailed

type_synonym handle = nat
type_synonym iface = nat
type_synonym bytes = "8 word list"

datatype authmode =
    MBEDTLS_SSL_VERIFY_NONE
  | MBEDTLS_SSL_VERIFY_OPTIONAL
  | MBEDTLS_SSL_VERIFY_REQUIRED

datatype crt_profile = profile_zero | mbedtls_x509_crt_profile_default

text \<open>
  Modelled from the spec: the structures of the engine inside \<^verbatim>\<open>TLSContext_t\<close> are
  opaque to the file. The model keeps of each one whether it is still all zero (or
  released, which the engine leaves as all zero) or in use since its \<^verbatim>\<open>_init\<close>, of
  the configuration the authentication mode the file has set, and of the session
  whether the I/O callbacks are bound.
\<close>

datatype estate = Zeroed | InUse

record ssl_config =
  cfg_state :: estate
  cfg_authmode :: "authmode option"

record ssl_context =
  ssl_state :: estate
  ssl_bio :: bool

record TLSContext =
  xSslConfig :: ssl_config
  xSslContext :: ssl_context
  xCertProfile :: crt_profile
  xRootCaCert :: estate
  xClientCert :: estate
  xPrivKey :: estate
  xEntropyContext :: estate
  xCtrDrgbContext :: estate
  pxSocketInterface :: "iface option"
  pxSocketContext :: "handle option"

text \<open>The fields of \<^verbatim>\<open>NetworkCredentials_t\<close> that the file reads.\<close>

record NetworkCredentials =
  pRootCa :: "bytes option"
  rootCaSize :: nat
  pClientCert :: "bytes option"
  clientCertSize :: nat
  pPrivateKey :: "bytes option"
  privateKeySize :: nat
  pAlpnProtos :: "string list option"
  disableSni :: int

subsection \<open>The trace of calls to the socket interface and to the engine\<close>

datatype res_kind =
  SslConfig | SslContext | RootCaCert | ClientCert | PrivKey | EntropyContext | CtrDrgbContext

datatype sockopt = SO_RCVTIMEO | SO_SNDTIMEO

datatype engine_fn =
    threading_set_alt
  | ctr_drbg_seed
  | ssl_config_defaults
  | ssl_conf_authmode authmode
  | ssl_conf_rng
  | ssl_conf_cert_profile
  | x509_crt_parse res_kind
  | ssl_conf_ca_chain
  | pk_parse_key
  | ssl_conf_own_cert
  | ssl_conf_alpn_protocols
  | ssl_set_hostname
  | ssl_conf_max_frag_len
  | ssl_setup
  | ssl_set_bio
  | ssl_handshake
  | ssl_close_notify
  | ssl_read
  | ssl_write
  | threading_free_alt

datatype event =
    SockSocket "handle option"
  | SockClose handle
  | SockSetsockopt "handle option" sockopt "32 word"
  | SockConnectName "handle option" "string option" "16 word"
  | SockSend "handle option"
  | SockRecv "handle option"
  | EngineInit res_kind
  | EngineFree res_kind
  | Released res_kind
  | Engine engine_fn

text \<open>The context a call works on, and the calls it has made so far.\<close>

record world =
  tls :: TLSContext
  trace :: "event list"

definition emit :: "event \<Rightarrow> world \<Rightarrow> world" where
  "emit e w = w\<lparr>trace := trace w @ [e]\<rparr>"

definition engine_call :: "engine_fn \<Rightarrow> world \<Rightarrow> world" where
  "engine_call f w = emit (Engine f) w"

subsection \<open>The engine's init and free functions\<close>

fun res_of :: "res_kind \<Rightarrow> TLSContext \<Rightarrow> estate" where
  "res_of SslConfig c = cfg_state (xSslConfig c)"
| "res_of SslContext c = ssl_state (xSslContext c)"
| "res_of RootCaCert c = xRootCaCert c"
| "res_of ClientCert c = xClientCert c"
| "res_of PrivKey c = xPrivKey c"
| "res_of EntropyContext c = xEntropyContext c"
| "res_of CtrDrgbContext c = xCtrDrgbContext c"

fun set_res :: "res_kind \<Rightarrow> estate \<Rightarrow> TLSContext \<Rightarrow> TLSContext" where
  "set_res SslConfig s c = c\<lparr>xSslConfig := \<lparr>cfg_state = s, cfg_authmode = None\<rparr>\<rparr>"
| "set_res SslContext s c = c\<lparr>xSslContext := \<lparr>ssl_state = s, ssl_bio = False\<rparr>\<rparr>"
| "set_res RootCaCert s c = c\<lparr>xRootCaCert := s\<rparr>"
| "set_res ClientCert s c = c\<lparr>xClientCert := s\<rparr>"
| "set_res PrivKey s c = c\<lparr>xPrivKey := s\<rparr>"
| "set_res EntropyContext s c = c\<lparr>xEntropyContext := s\<rparr>"
| "set_res CtrDrgbContext s c = c\<lparr>xCtrDrgbContext := s\<rparr>"

text \<open>
  Modelled from the spec: the \<^verbatim>\<open>mbedtls_*_init\<close> functions of the engine. From its
  init on, a structure is in use and has to be released.
\<close>

definition engine_init :: "res_kind \<Rightarrow> world \<Rightarrow> world" where
  "engine_init k w = emit (EngineInit k) (w\<lparr>tls := set_res k InUse (tls w)\<rparr>)"

text \<open>
  Modelled from the spec: the \<^verbatim>\<open>mbedtls_*_free\<close> functions of the engine (section 3:
  every resource release is independently idempotent and safe to call on a still
  zero-initialized substructure). The call is always recorded (\<open>EngineFree\<close>); a
  release happens (\<open>Released\<close>) only for a structure that is in use, and leaves it
  zeroed.
\<close>

definition engine_free :: "res_kind \<Rightarrow> world \<Rightarrow> world" where
  "engine_free k w =
     (let w1 = emit (EngineFree k) w;
          w2 = (if res_of k (tls w) = InUse then emit (Released k) w1 else w1)
      in w2\<lparr>tls := set_res k Zeroed (tls w2)\<rparr>)"

text \<open>
  Modelled from the spec: \<^verbatim>\<open>mbedtls_ssl_conf_authmode\<close> stores the authentication mode
  in the configuration, and \<^verbatim>\<open>mbedtls_ssl_set_bio\<close> binds the I/O callbacks to the
  session (section 4.3); init and free of the structure undo both.
\<close>

definition mbedtls_ssl_conf_authmode :: "authmode \<Rightarrow> world \<Rightarrow> world" where
  "mbedtls_ssl_conf_authmode m w =
     engine_call (ssl_conf_authmode m)
       (w\<lparr>tls := (tls w)\<lparr>xSslConfig := (xSslConfig (tls w))\<lparr>cfg_authmode := Some m\<rparr>\<rparr>\<rparr>)"

definition mbedtls_ssl_set_bio :: "world \<Rightarrow> world" where
  "mbedtls_ssl_set_bio w =
     engine_call ssl_set_bio
       (w\<lparr>tls := (tls w)\<lparr>xSslContext := (xSslContext (tls w))\<lparr>ssl_bio := True\<rparr>\<rparr>\<rparr>)"

subsection \<open>tlsContextInit and tlsContextFree\<close>

text \<open>
  The context pointer of the static helpers is never null (connect has read through it
  before it calls them), so they take the context itself. The two debug hooks under
  \<^verbatim>\<open>#ifdef MBEDTLS_DEBUG_C\<close> only install a log printer and are left out.
\<close>

definition tlsContextInit :: "world \<Rightarrow> world" where
  "tlsContextInit w =
     fold engine_init [SslConfig, RootCaCert, PrivKey, ClientCert, SslContext] w"

definition tlsContextFree :: "world \<Rightarrow> world" where
  "tlsContextFree w =
     fold engine_free
       [SslContext, RootCaCert, ClientCert, PrivKey, EntropyContext, CtrDrgbContext, SslConfig] w"

subsection \<open>What the collaborators answer during one call of connect\<close>

text \<open>
  A call of an I/O callback by the engine, with what the socket's \<^verbatim>\<open>send\<close> or
  \<^verbatim>\<open>recv\<close> returns to it and the errno it leaves.
\<close>

datatype bio = BioSend int int | BioRecv int int

text \<open>
  What \<^verbatim>\<open>socket\<close>, the two \<^verbatim>\<open>setsockopt\<close> calls and \<^verbatim>\<open>connect_name\<close> return,
  what the engine functions whose result the code tests return, and for the \<open>k\<close>-th
  call of the handshake step the callbacks it calls and the code it returns. The
  results of the ALPN, SNI and fragment-length settings are only logged and have no
  entry.
\<close>

record connect_env =
  socket_ret :: "handle option"
  setsockopt_rcv_ret :: int
  setsockopt_snd_ret :: int
  connect_name_ret :: int
  ctr_drbg_seed_ret :: int
  config_defaults_ret :: int
  root_ca_parse_ret :: int
  client_cert_parse_ret :: int
  pk_parse_key_ret :: int
  conf_own_cert_ret :: int
  ssl_setup_ret :: int
  handshake_script :: "nat \<Rightarrow> bio list \<times> int"

subsection \<open>Credentials\<close>

text \<open>
  The \<^verbatim>\<open>configASSERT\<close>s of the helpers below re-check pointers that tlsSetup has
  asserted or that the enclosing \<^verbatim>\<open>if\<close> has tested; their types exclude null.
  setCredentials takes the credentials and, as \<open>root_ca\<close>, the trust anchor
  \<^verbatim>\<open>pNetworkCredentials->pRootCa\<close> that tlsSetup has asserted not to be null. The
  bytes and sizes of the credentials go to the engine's parsers and nowhere else.
\<close>

definition setRootCa :: "connect_env \<Rightarrow> bytes \<Rightarrow> nat \<Rightarrow> world \<Rightarrow> int \<times> world" where
  "setRootCa env pRootCa' xRootCaCertSize w =
     (let mbedtlsError = root_ca_parse_ret env;
          w1 = engine_call (x509_crt_parse RootCaCert) w
      in if mbedtlsError \<noteq> 0 then (mbedtlsError, w1)
         else (mbedtlsError, engine_call ssl_conf_ca_chain w1))"

definition setClientCertificate :: "connect_env \<Rightarrow> bytes \<Rightarrow> nat \<Rightarrow> world \<Rightarrow> int \<times> world" where
  "setClientCertificate env pClientCert' clientCertSize' w =
     (client_cert_parse_ret env, engine_call (x509_crt_parse ClientCert) w)"

definition setPrivateKey :: "connect_env \<Rightarrow> bytes \<Rightarrow> nat \<Rightarrow> world \<Rightarrow> int \<times> world" where
  "setPrivateKey env pPrivateKeyPath privateKeySize' w =
     (pk_parse_key_ret env, engine_call pk_parse_key w)"

definition setCredentials :: "connect_env \<Rightarrow> NetworkCredentials \<Rightarrow> bytes \<Rightarrow> world \<Rightarrow> int \<times> world" where
  "setCredentials env pNetworkCredentials root_ca w =
     (let w1 = w\<lparr>tls := (tls w)\<lparr>xCertProfile := mbedtls_x509_crt_profile_default\<rparr>\<rparr>;
          w2 = mbedtls_ssl_conf_authmode MBEDTLS_SSL_VERIFY_NONE w1;
          w3 = engine_call ssl_conf_rng w2;
          w4 = engine_call ssl_conf_cert_profile w3;
          (e5, w5) = setRootCa env root_ca (rootCaSize pNetworkCredentials) w4
      in case (pClientCert pNetworkCredentials, pPrivateKey pNetworkCredentials) of
           (Some cert, Some key) \<Rightarrow>
             (let (e6, w6) = (if e5 = 0
                    then setClientCertificate env cert (clientCertSize pNetworkCredentials) w5
                    else (e5, w5));
                  (e7, w7) = (if e6 = 0
                    then setPrivateKey env key (privateKeySize pNetworkCredentials) w6
                    else (e6, w6))
              in if e7 = 0 then (conf_own_cert_ret env, engine_call ssl_conf_own_cert w7)
                 else (e7, w7))
         | _ \<Rightarrow> (e5, w5))"

definition setOptionalConfigurations ::
  "platform \<Rightarrow> connect_env \<Rightarrow> string \<Rightarrow> NetworkCredentials \<Rightarrow> world \<Rightarrow> world" where
  "setOptionalConfigurations K env pHostName pNetworkCredentials w =
     (let w1 = (if pAlpnProtos pNetworkCredentials \<noteq> None
                then engine_call ssl_conf_alpn_protocols w else w);
          w2 = (if disableSni pNetworkCredentials = pdFALSE K
                then engine_call ssl_set_hostname w1 else w1)
      in if MBEDTLS_SSL_MAX_FRAGMENT_LENGTH K
         then engine_call ssl_conf_max_frag_len w2 else w2)"

definition tlsSetup ::
  "platform \<Rightarrow> connect_env \<Rightarrow> string option \<Rightarrow> NetworkCredentials option \<Rightarrow> world
     \<Rightarrow> fault + (TlsTransportStatus \<times> world)" where
  "tlsSetup K env pHostName pNetworkCredentials w =
     (case (pHostName, pNetworkCredentials) of
        (Some host, Some creds) \<Rightarrow>
          (case pRootCa creds of
             None \<Rightarrow> Inl AssertionFailed
           | Some root_ca \<Rightarrow>
               (let w1 = tlsContextInit w;
                    w2 = engine_call ssl_config_defaults w1;
                    returnStatus = (if config_defaults_ret env \<noteq> 0
                                    then TLS_TRANSPORT_INSUFFICIENT_MEMORY
                                    else TLS_TRANSPORT_SUCCESS)
                in if returnStatus = TLS_TRANSPORT_SUCCESS then
                     (let (mbedtlsError, w3) = setCredentials env creds root_ca w2
                      in if mbedtlsError \<noteq> 0
                         then Inr (TLS_TRANSPORT_INVALID_CREDENTIALS, w3)
                         else Inr (returnStatus, setOptionalConfigurations K env host creds w3))
                   else Inr (returnStatus, w2)))
      | _ \<Rightarrow> Inl AssertionFailed)"

subsection \<open>The I/O adapter\<close>

text \<open>
  The callbacks the engine calls to move bytes. \<open>answer\<close> is what the socket's
  \<^verbatim>\<open>send\<close> (\<^verbatim>\<open>recv\<close>) returned and the errno it left. The callbacks are bound by
  tlsHandshake only, after connect has asserted that the socket interface is not null.
\<close>

definition mbedtls_ssl_send :: "platform \<Rightarrow> int \<times> int \<Rightarrow> world \<Rightarrow> int \<times> world" where
  "mbedtls_ssl_send K answer w =
     (let w1 = emit (SockSend (pxSocketContext (tls w))) w;
          lReturnValue = fst answer;
          errno = snd answer
      in if lReturnValue < 0 then
           (if (EAGAIN K \<noteq> EWOULDBLOCK K \<and> errno = EAGAIN K)
               \<or> errno = EINTR K \<or> errno = EWOULDBLOCK K
            then (MBEDTLS_ERR_SSL_WANT_WRITE K, w1)
            else if errno = EPIPE K \<or> errno = ECONNRESET K
            then (MBEDTLS_ERR_NET_CONN_RESET K, w1)
            else (MBEDTLS_ERR_NET_SEND_FAILED K, w1))
         else (lReturnValue, w1))"

definition mbedtls_ssl_recv :: "platform \<Rightarrow> int \<times> int \<Rightarrow> world \<Rightarrow> int \<times> world" where
  "mbedtls_ssl_recv K answer w =
     (let w1 = emit (SockRecv (pxSocketContext (tls w))) w;
          lReturnValue = fst answer;
          errno = snd answer
      in if lReturnValue < 0 then
           (if (EAGAIN K \<noteq> EWOULDBLOCK K \<and> errno = EAGAIN K)
               \<or> errno = EINTR K \<or> errno = EWOULDBLOCK K
            then (MBEDTLS_ERR_SSL_WANT_READ K, w1)
            else if errno = EPIPE K \<or> errno = ECONNRESET K
            then (MBEDTLS_ERR_NET_CONN_RESET K, w1)
            else (MBEDTLS_ERR_NET_RECV_FAILED K, w1))
         else (lReturnValue, w1))"

subsection \<open>Operations of the engine that move bytes\<close>

text \<open>
  Modelled from the spec: the engine's handshake step, record read, record write and
  close-notify (section 6). The engine is opaque: \<open>answer\<close> gives the code the
  operation returns and the calls of the bound I/O callbacks it makes on the way, each
  with what the socket answers. A session whose callbacks are not bound has no
  transport and makes none.
\<close>

definition bio_call :: "platform \<Rightarrow> bio \<Rightarrow> world \<Rightarrow> world" where
  "bio_call K b w =
     (case b of
        BioSend r e \<Rightarrow> snd (mbedtls_ssl_send K (r, e) w)
      | BioRecv r e \<Rightarrow> snd (mbedtls_ssl_recv K (r, e) w))"

definition engine_op :: "platform \<Rightarrow> engine_fn \<Rightarrow> bio list \<times> int \<Rightarrow> world \<Rightarrow> int \<times> world" where
  "engine_op K f answer w =
     (let w1 = engine_call f w
      in (snd answer,
          if ssl_bio (xSslContext (tls w1)) then fold (bio_call K) (fst answer) w1 else w1))"

subsection \<open>The handshake\<close>

text \<open>
  The \<^verbatim>\<open>do ... while\<close> loop of tlsHandshake. \<open>script k\<close> is the answer of the
  \<open>k\<close>-th call of the handshake step; the loop returns the last code and the number
  of calls made so far. It has no bound: where the engine asks for a retry forever,
  the result is \<open>None\<close>.
\<close>

partial_function (option) handshake_loop ::
  "platform \<Rightarrow> (nat \<Rightarrow> bio list \<times> int) \<Rightarrow> nat \<Rightarrow> world \<Rightarrow> ((int \<times> nat) \<times> world) option" where
  "handshake_loop K script k w =
     (if fst (engine_op K ssl_handshake (script k) w) = MBEDTLS_ERR_SSL_WANT_READ K
         \<or> fst (engine_op K ssl_handshake (script k) w) = MBEDTLS_ERR_SSL_WANT_WRITE K
      then handshake_loop K script (Suc k) (snd (engine_op K ssl_handshake (script k) w))
      else Some ((fst (engine_op K ssl_handshake (script k) w), Suc k),
                 snd (engine_op K ssl_handshake (script k) w)))"

declare handshake_loop.simps [code]

definition tlsHandshake ::
  "platform \<Rightarrow> connect_env \<Rightarrow> NetworkCredentials option \<Rightarrow> world
     \<Rightarrow> (fault + (TlsTransportStatus \<times> world)) option" where
  "tlsHandshake K env pNetworkCredentials w =
     (if pNetworkCredentials = None then Some (Inl AssertionFailed)
      else
        (let w1 = engine_call ssl_setup w
         in if ssl_setup_ret env \<noteq> 0 then Some (Inr (TLS_TRANSPORT_INTERNAL_ERROR, w1))
            else
              (case handshake_loop K (handshake_script env) 0 (mbedtls_ssl_set_bio w1) of
                 None \<Rightarrow> None
               | Some ((mbedtlsError, n), w3) \<Rightarrow>
                   if mbedtlsError \<noteq> 0 then Some (Inr (TLS_TRANSPORT_HANDSHAKE_FAILED, w3))
                   else Some (Inr (TLS_TRANSPORT_SUCCESS, w3)))))"

subsection \<open>initMbedtls\<close>

text \<open>
  Nothing assigns \<^verbatim>\<open>mbedtlsError\<close> before its first test (the entropy source is added
  elsewhere), so the test reads the initial 0.
\<close>

definition initMbedtls :: "connect_env \<Rightarrow> world \<Rightarrow> TlsTransportStatus \<times> world" where
  "initMbedtls env w =
     (let w1 = engine_call threading_set_alt w;
          w2 = engine_init EntropyContext w1;
          w3 = engine_init CtrDrgbContext w2;
          mbedtlsError = (0 :: int);
          returnStatus = (if mbedtlsError \<noteq> 0 then TLS_TRANSPORT_INTERNAL_ERROR
                          else TLS_TRANSPORT_SUCCESS)
      in if returnStatus = TLS_TRANSPORT_SUCCESS then
           (let w4 = engine_call ctr_drbg_seed w3
            in if ctr_drbg_seed_ret env \<noteq> 0 then (TLS_TRANSPORT_INTERNAL_ERROR, w4)
               else (returnStatus, w4))
         else (returnStatus, w3))"

subsection \<open>allocate\<close>

definition zeroed :: TLSContext where
  "zeroed =
     \<lparr>xSslConfig = \<lparr>cfg_state = Zeroed, cfg_authmode = None\<rparr>,
      xSslContext = \<lparr>ssl_state = Zeroed, ssl_bio = False\<rparr>,
      xCertProfile = profile_zero,
      xRootCaCert = Zeroed, xClientCert = Zeroed, xPrivKey = Zeroed,
      xEntropyContext = Zeroed, xCtrDrgbContext = Zeroed,
      pxSocketInterface = None, pxSocketContext = None\<rparr>"

text \<open>
  The local \<^verbatim>\<open>pxTLSContext\<close> is declared without an initialiser and assigned only
  in the branch that calls \<^verbatim>\<open>pvPortMalloc\<close>. \<open>uninitialised\<close> is the value the
  variable holds otherwise (null, or a pointer to whatever memory it names);
  \<open>pvPortMalloc_ret\<close> is what the allocator returns. \<^verbatim>\<open>memset\<close> overwrites what the
  pointer names.
\<close>

definition mbedtls_transport_allocate ::
  "TLSContext option \<Rightarrow> TLSContext option \<Rightarrow> iface option \<Rightarrow> TLSContext option" where
  "mbedtls_transport_allocate uninitialised pvPortMalloc_ret pxSocketInterface' =
     (let pxTLSContext = (if pxSocketInterface' = None then uninitialised
                          else pvPortMalloc_ret)
      in case pxTLSContext of
           None \<Rightarrow> None
         | Some old_memory \<Rightarrow> Some (zeroed\<lparr>pxSocketInterface := pxSocketInterface'\<rparr>))"

subsection \<open>connect\<close>

definition close_if_open :: "world \<Rightarrow> world" where
  "close_if_open w =
     (case pxSocketContext (tls w) of
        None \<Rightarrow> w
      | Some h \<Rightarrow> (emit (SockClose h) w)\<lparr>tls := (tls w)\<lparr>pxSocketContext := None\<rparr>\<rparr>)"

definition connect_validate ::
  "TLSContext option \<Rightarrow> string option \<Rightarrow> NetworkCredentials option \<Rightarrow> TlsTransportStatus" where
  "connect_validate pxNetworkContext pHostName pNetworkCredentials =
     (case pNetworkCredentials of
        None \<Rightarrow> TLS_TRANSPORT_INVALID_PARAMETER
      | Some creds \<Rightarrow>
          if pxNetworkContext = None \<or> pHostName = None then TLS_TRANSPORT_INVALID_PARAMETER
          else if pRootCa creds = None then TLS_TRANSPORT_INVALID_PARAMETER
          else TLS_TRANSPORT_SUCCESS)"

text \<open>
  Lines 781 to 840: close the socket of an earlier connection, allocate a new one, set
  the two timeouts, connect by name, seed the random generator. Only the last three
  are under \<^verbatim>\<open>if( returnStatus == TLS_TRANSPORT_SUCCESS )\<close>.
\<close>

definition connect_socket ::
  "platform \<Rightarrow> connect_env \<Rightarrow> string option \<Rightarrow> 16 word \<Rightarrow> 32 word \<Rightarrow> 32 word
     \<Rightarrow> TlsTransportStatus \<Rightarrow> world \<Rightarrow> TlsTransportStatus \<times> world" where
  "connect_socket K env pHostName port receiveTimeoutMs sendTimeoutMs s0 w =
     (let w1 = close_if_open w;
          w2 = (emit (SockSocket (socket_ret env)) w1)
                 \<lparr>tls := (tls w1)\<lparr>pxSocketContext := socket_ret env\<rparr>\<rparr>;
          s2 = (if pxSocketContext (tls w2) = None then TLS_TRANSPORT_INTERNAL_ERROR else s0);
          (s3, w3) =
            (if s2 = TLS_TRANSPORT_SUCCESS then
               (let wa = emit (SockSetsockopt (pxSocketContext (tls w2)) SO_RCVTIMEO
                                 receiveTimeoutMs) w2;
                    wb = emit (SockSetsockopt (pxSocketContext (tls wa)) SO_SNDTIMEO
                                 sendTimeoutMs) wa;
                    socketError = (0 OR setsockopt_rcv_ret env) OR setsockopt_snd_ret env
                in if socketError \<noteq> SOCK_OK K then (TLS_TRANSPORT_INVALID_PARAMETER, wb)
                   else (s2, wb))
             else (s2, w2));
          (s4, w4) =
            (if s3 = TLS_TRANSPORT_SUCCESS then
               (let wc = emit (SockConnectName (pxSocketContext (tls w3)) pHostName port) w3
                in if connect_name_ret env \<noteq> SOCK_OK K then (TLS_TRANSPORT_CONNECT_FAILURE, wc)
                   else (s3, wc))
             else (s3, w3))
      in if s4 = TLS_TRANSPORT_SUCCESS then initMbedtls env w4 else (s4, w4))"

text \<open>Lines 855 to 868; the context is not null here.\<close>

definition connect_cleanup :: "TlsTransportStatus \<times> world \<Rightarrow> TlsTransportStatus \<times> world" where
  "connect_cleanup r =
     (if fst r \<noteq> TLS_TRANSPORT_SUCCESS then (fst r, close_if_open (tlsContextFree (snd r)))
      else r)"

text \<open>
  Line 756 reads \<^verbatim>\<open>pxTLSContext->pxSocketInterface\<close> before line 760 tests the
  context pointer, and line 758 asserts that the interface is not null. The result is
  \<open>None\<close> where the handshake loop does not end; otherwise a fault, or the status
  with the context as connect leaves it and the calls it made.
\<close>

definition mbedtls_transport_connect ::
  "platform \<Rightarrow> TLSContext option \<Rightarrow> string option \<Rightarrow> 16 word \<Rightarrow> NetworkCredentials option
     \<Rightarrow> 32 word \<Rightarrow> 32 word \<Rightarrow> connect_env \<Rightarrow> (fault + (TlsTransportStatus \<times> world)) option" where
  "mbedtls_transport_connect K pxNetworkContext pHostName port pNetworkCredentials
       receiveTimeoutMs sendTimeoutMs env =
     (case pxNetworkContext of
        None \<Rightarrow> Some (Inl NullDereference)
      | Some ctx \<Rightarrow>
          if pxSocketInterface ctx = None then Some (Inl AssertionFailed)
          else
            (let s0 = connect_validate pxNetworkContext pHostName pNetworkCredentials;
                 (s5, w5) = connect_socket K env pHostName port receiveTimeoutMs sendTimeoutMs
                              s0 \<lparr>tls = ctx, trace = []\<rparr>
             in case (if s5 = TLS_TRANSPORT_SUCCESS
                      then tlsSetup K env pHostName pNetworkCredentials w5
                      else Inr (s5, w5)) of
                  Inl f \<Rightarrow> Some (Inl f)
                | Inr (s6, w6) \<Rightarrow>
                    (case (if s6 = TLS_TRANSPORT_SUCCESS
                           then tlsHandshake K env pNetworkCredentials w6
                           else Some (Inr (s6, w6))) of
                       None \<Rightarrow> None
                     | Some (Inl f) \<Rightarrow> Some (Inl f)
                     | Some (Inr r) \<Rightarrow> Some (Inr (connect_cleanup r)))))"

subsection \<open>disconnect, recv and send\<close>

text \<open>
  \<open>answer\<close> is what the engine's close-notify does. With an open socket the code
  reads the socket interface through its pointer.
\<close>

definition mbedtls_transport_disconnect ::
  "platform \<Rightarrow> TLSContext option \<Rightarrow> bio list \<times> int \<Rightarrow> fault + (TLSContext option \<times> event list)" where
  "mbedtls_transport_disconnect K pxNetworkContext answer =
     (case pxNetworkContext of
        None \<Rightarrow> Inr (None, [Engine threading_free_alt])
      | Some ctx \<Rightarrow>
          (let (tlsStatus, w1) = engine_op K ssl_close_notify answer \<lparr>tls = ctx, trace = []\<rparr>
           in if pxSocketContext (tls w1) \<noteq> None \<and> pxSocketInterface (tls w1) = None
              then Inl NullDereference
              else
                (let w2 = close_if_open w1;
                     w3 = tlsContextFree w2;
                     w4 = engine_call threading_free_alt w3
                 in Inr (Some (tls w4), trace w4))))"

definition mbedtls_transport_recv ::
  "platform \<Rightarrow> TLSContext option \<Rightarrow> bio list \<times> int \<Rightarrow> fault + (int \<times> world)" where
  "mbedtls_transport_recv K pxNetworkContext answer =
     (case pxNetworkContext of
        None \<Rightarrow> Inl NullDereference
      | Some ctx \<Rightarrow>
          (let (tlsStatus, w1) = engine_op K ssl_read answer \<lparr>tls = ctx, trace = []\<rparr>
           in if tlsStatus = MBEDTLS_ERR_SSL_TIMEOUT K
                 \<or> tlsStatus = MBEDTLS_ERR_SSL_WANT_READ K
                 \<or> tlsStatus = MBEDTLS_ERR_SSL_WANT_WRITE K
              then Inr (0, w1)
              else if tlsStatus < 0 then Inr (tlsStatus, w1)
              else Inr (tlsStatus, w1)))"

definition mbedtls_transport_send ::
  "platform \<Rightarrow> TLSContext option \<Rightarrow> bio list \<times> int \<Rightarrow> fault + (int \<times> world)" where
  "mbedtls_transport_send K pxNetworkContext answer =
     (case pxNetworkContext of
        None \<Rightarrow> Inl NullDereference
      | Some ctx \<Rightarrow>
          (let (tlsStatus, w1) = engine_op K ssl_write answer \<lparr>tls = ctx, trace = []\<rparr>
           in if tlsStatus = MBEDTLS_ERR_SSL_TIMEOUT K
                 \<or> tlsStatus = MBEDTLS_ERR_SSL_WANT_READ K
                 \<or> tlsStatus = MBEDTLS_ERR_SSL_WANT_WRITE K
              then Inr (0, w1)
              else if tlsStatus < 0 then Inr (tlsStatus, w1)
              else Inr (tlsStatus, w1)))"

subsection \<open>Sequences of operations on one context\<close>

datatype op =
    OpConnect "string option" "16 word" "NetworkCredentials option" "32 word" "32 word" connect_env
  | OpDisconnect "bio list \<times> int"
  | OpRecv "bio list \<times> int"
  | OpSend "bio list \<times> int"

text \<open>
  One call on a context the caller holds a pointer to: the context as the call leaves it
  and the calls it made, a fault, or \<open>None\<close> for a connect that does not return.
\<close>

definition apply_op :: "platform \<Rightarrow> op \<Rightarrow> TLSContext \<Rightarrow> (fault + world) option" where
  "apply_op K operation c =
     (case operation of
        OpConnect pHostName port pNetworkCredentials receiveTimeoutMs sendTimeoutMs env \<Rightarrow>
          (case mbedtls_transport_connect K (Some c) pHostName port pNetworkCredentials
                  receiveTimeoutMs sendTimeoutMs env of
             None \<Rightarrow> None
           | Some (Inl f) \<Rightarrow> Some (Inl f)
           | Some (Inr r) \<Rightarrow> Some (Inr (snd r)))
      | OpDisconnect answer \<Rightarrow>
          (case mbedtls_transport_disconnect K (Some c) answer of
             Inl f \<Rightarrow> Some (Inl f)
           | Inr r \<Rightarrow> Some (Inr \<lparr>tls = (case fst r of None \<Rightarrow> c | Some c' \<Rightarrow> c'),
                                 trace = snd r\<rparr>))
      | OpRecv answer \<Rightarrow>
          (case mbedtls_transport_recv K (Some c) answer of
             Inl f \<Rightarrow> Some (Inl f)
           | Inr r \<Rightarrow> Some (Inr (snd r)))
      | OpSend answer \<Rightarrow>
          (case mbedtls_transport_send K (Some c) answer of
             Inl f \<Rightarrow> Some (Inl f)
           | Inr r \<Rightarrow> Some (Inr (snd r))))"

text \<open>The operations of a list, one after the other, with the calls of all of them.\<close>

fun run_ops :: "platform \<Rightarrow> op list \<Rightarrow> world \<Rightarrow> (fault + world) option" where
  "run_ops K [] w = Some (Inr w)"
| "run_ops K (operation # rest) w =
     (case apply_op K operation (tls w) of
        None \<Rightarrow> None
      | Some (Inl f) \<Rightarrow> Some (Inl f)
      | Some (Inr w') \<Rightarrow> run_ops K rest \<lparr>tls = tls w', trace = trace w @ trace w'\<rparr>)"

subsection \<open>The socket a trace leaves open\<close>

text \<open>
  Reading a trace from the left with the socket that is open (\<open>cur\<close>): \<^verbatim>\<open>socket\<close> is
  called only while none is open, and what it returns is open from then on;
  \<^verbatim>\<open>close\<close> is called only on the open socket, and none is open afterwards;
  \<^verbatim>\<open>setsockopt\<close> and \<^verbatim>\<open>connect_name\<close> are called only on the open socket; the I/O
  adapter hands over the open socket and nothing else. The result is \<open>None\<close> for a
  trace that breaks one of these rules, and the socket left open otherwise.
\<close>

fun sock_step :: "event \<Rightarrow> handle option \<Rightarrow> handle option option" where
  "sock_step (SockSocket r) cur = (if cur = None then Some r else None)"
| "sock_step (SockClose h) cur = (if cur = Some h then Some None else None)"
| "sock_step (SockSetsockopt h opt v) cur = (if h = cur \<and> cur \<noteq> None then Some cur else None)"
| "sock_step (SockConnectName h host port) cur =
     (if h = cur \<and> cur \<noteq> None then Some cur else None)"
| "sock_step (SockSend h) cur = (if h = cur then Some cur else None)"
| "sock_step (SockRecv h) cur = (if h = cur then Some cur else None)"
| "sock_step (EngineInit k) cur = Some cur"
| "sock_step (EngineFree k) cur = Some cur"
| "sock_step (Released k) cur = Some cur"
| "sock_step (Engine f) cur = Some cur"

fun sock_run :: "event list \<Rightarrow> handle option \<Rightarrow> handle option option" where
  "sock_run [] cur = Some cur"
| "sock_run (e # es) cur =
     (case sock_step e cur of None \<Rightarrow> None | Some cur' \<Rightarrow> sock_run es cur')"

text \<open>The socket handle of the context is the socket the trace leaves open.\<close>

definition tracks :: "handle option \<Rightarrow> world \<Rightarrow> bool" where
  "tracks cur0 w = (sock_run (trace w) cur0 = Some (pxSocketContext (tls w)))"

text \<open>
  A step from \<open>w\<close> to \<open>w'\<close> that leaves the socket handle and the interface pointer
  as they are and adds only calls that neither open nor close a socket and hand over
  no other socket than the one the context holds.
\<close>

definition calm :: "world \<Rightarrow> world \<Rightarrow> bool" where
  "calm w w' =
     (pxSocketContext (tls w') = pxSocketContext (tls w)
      \<and> pxSocketInterface (tls w') = pxSocketInterface (tls w)
      \<and> (\<exists>es. trace w' = trace w @ es
            \<and> list_all (\<lambda>e. sock_step e (pxSocketContext (tls w))
                                = Some (pxSocketContext (tls w))) es))"

subsection \<open>What tlsContextFree and the I/O callbacks leave behind\<close>

definition released :: "TLSContext \<Rightarrow> TLSContext" where
  "released c =
     c\<lparr>xSslConfig := \<lparr>cfg_state = Zeroed, cfg_authmode = None\<rparr>,
       xSslContext := \<lparr>ssl_state = Zeroed, ssl_bio = False\<rparr>,
       xRootCaCert := Zeroed, xClientCert := Zeroed, xPrivKey := Zeroed,
       xEntropyContext := Zeroed, xCtrDrgbContext := Zeroed\<rparr>"

definition free_events :: "TLSContext \<Rightarrow> event list" where
  "free_events c =
     concat (map (\<lambda>k. EngineFree k # (if res_of k c = InUse then [Released k] else []))
       [SslContext, RootCaCert, ClientCert, PrivKey, EntropyContext, CtrDrgbContext, SslConfig])"

definition bio_event :: "handle option \<Rightarrow> bio \<Rightarrow> event" where
  "bio_event h b = (case b of BioSend r e \<Rightarrow> SockSend h | BioRecv r e \<Rightarrow> SockRecv h)"

subsection \<open>Collaborators that let connect through to the handshake\<close>

text \<open>
  The socket is allocated, both timeouts are accepted, the transport connects, the
  random generator is seeded, and the engine accepts the defaults, the credentials and
  the session setup.
\<close>

definition env_accepts :: "platform \<Rightarrow> connect_env \<Rightarrow> bool" where
  "env_accepts K env =
     (socket_ret env \<noteq> None
      \<and> (0 OR setsockopt_rcv_ret env) OR setsockopt_snd_ret env = SOCK_OK K
      \<and> connect_name_ret env = SOCK_OK K
      \<and> ctr_drbg_seed_ret env = 0 \<and> config_defaults_ret env = 0
      \<and> root_ca_parse_ret env = 0 \<and> client_cert_parse_ret env = 0
      \<and> pk_parse_key_ret env = 0 \<and> conf_own_cert_ret env = 0
      \<and> ssl_setup_ret env = 0)"

subsection \<open>Concrete inputs\<close>

text \<open>Collaborators that accept everything; the handshake succeeds at its first step.\<close>

definition env0 :: connect_env where
  "env0 =
     \<lparr>socket_ret = Some 8, setsockopt_rcv_ret = 0, setsockopt_snd_ret = 0,
      connect_name_ret = 0, ctr_drbg_seed_ret = 0, config_defaults_ret = 0,
      root_ca_parse_ret = 0, client_cert_parse_ret = 0, pk_parse_key_ret = 0,
      conf_own_cert_ret = 0, ssl_setup_ret = 0,
      handshake_script = (\<lambda>k. ([], 0))\<rparr>"

text \<open>
  The same, with a handshake that asks for a read twice (each time after a receive that
  would block) and then succeeds; and the same again with another socket.
\<close>

definition env2 :: connect_env where
  "env2 =
     env0\<lparr>handshake_script :=
            (\<lambda>k. if k < 2 then ([BioRecv (- 1) 11], - 26880) else ([], 0))\<rparr>"

definition env9 :: connect_env where
  "env9 = env2\<lparr>socket_ret := Some 9\<rparr>"

definition creds0 :: NetworkCredentials where
  "creds0 =
     \<lparr>pRootCa = Some [1], rootCaSize = 1, pClientCert = None, clientCertSize = 0,
      pPrivateKey = None, privateKeySize = 0, pAlpnProtos = None, disableSni = 0\<rparr>"

definition w0 :: world where
  "w0 = \<lparr>tls = zeroed, trace = []\<rparr>"

text \<open>A context as allocate returns it for the socket interface 1.\<close>

definition fresh1 :: TLSContext where
  "fresh1 = zeroed\<lparr>pxSocketInterface := Some 1\<rparr>"

text \<open>The context \<open>fresh1\<close> after a connect with \<open>env0\<close> or \<open>env2\<close> has succeeded.\<close>

definition established :: TLSContext where
  "established =
     \<lparr>xSslConfig = \<lparr>cfg_state = InUse, cfg_authmode = Some MBEDTLS_SSL_VERIFY_NONE\<rparr>,
      xSslContext = \<lparr>ssl_state = InUse, ssl_bio = True\<rparr>,
      xCertProfile = mbedtls_x509_crt_profile_default,
      xRootCaCert = InUse, xClientCert = InUse, xPrivKey = InUse,
      xEntropyContext = InUse, xCtrDrgbContext = InUse,
      pxSocketInterface = Some 1, pxSocketContext = Some 8\<rparr>"

section \<open>Running the model on the concrete inputs\<close>

lemmas eval_defs =
  mbedtls_transport_connect_def connect_validate_def connect_socket_def connect_cleanup_def
  close_if_open_def emit_def engine_call_def engine_init_def engine_free_def
  tlsContextInit_def tlsContextFree_def initMbedtls_def tlsSetup_def setCredentials_def
  setRootCa_def setClientCertificate_def setPrivateKey_def setOptionalConfigurations_def
  mbedtls_ssl_conf_authmode_def mbedtls_ssl_set_bio_def tlsHandshake_def engine_op_def
  bio_call_def mbedtls_ssl_send_def mbedtls_ssl_recv_def
  mbedtls_transport_disconnect_def mbedtls_transport_send_def mbedtls_transport_recv_def
  apply_op_def Let_def

text \<open>
  A first connect on a fresh context, with a handshake that needs three steps: the
  status, the context it leaves and every call it makes, in order.
\<close>

lemma connect_fresh1:
  "mbedtls_transport_connect newlib_mbedtls (Some fresh1) (Some ''broker'') 8883 (Some creds0)
     1000 1000 env2
   = Some (Inr (TLS_TRANSPORT_SUCCESS,
       \<lparr>tls = established,
        trace = [SockSocket (Some 8), SockSetsockopt (Some 8) SO_RCVTIMEO 1000,
          SockSetsockopt (Some 8) SO_SNDTIMEO 1000,
          SockConnectName (Some 8) (Some ''broker'') 8883,
          Engine threading_set_alt, EngineInit EntropyContext, EngineInit CtrDrgbContext,
          Engine ctr_drbg_seed, EngineInit SslConfig, EngineInit RootCaCert, EngineInit PrivKey,
          EngineInit ClientCert, EngineInit SslContext, Engine ssl_config_defaults,
          Engine (ssl_conf_authmode MBEDTLS_SSL_VERIFY_NONE), Engine ssl_conf_rng,
          Engine ssl_conf_cert_profile, Engine (x509_crt_parse RootCaCert),
          Engine ssl_conf_ca_chain, Engine ssl_set_hostname, Engine ssl_conf_max_frag_len,
          Engine ssl_setup, Engine ssl_set_bio,
          Engine ssl_handshake, SockRecv (Some 8), Engine ssl_handshake, SockRecv (Some 8),
          Engine ssl_handshake]\<rparr>))"
  by (simp add: eval_defs handshake_loop.simps fresh1_def zeroed_def env2_def env0_def creds0_def
      newlib_mbedtls_def established_def)

lemma connect_fresh1_established:
  "\<exists>w. mbedtls_transport_connect newlib_mbedtls (Some fresh1) (Some ''broker'') 8883
          (Some creds0) 1000 1000 env2 = Some (Inr (TLS_TRANSPORT_SUCCESS, w))
        \<and> tls w = established"
  by (simp add: connect_fresh1)

text \<open>A second connect on the context of an established connection.\<close>

lemma connect_established:
  "\<exists>w. mbedtls_transport_connect newlib_mbedtls (Some established) (Some ''broker'') 8883
          (Some creds0) 1000 1000 env9 = Some (Inr (TLS_TRANSPORT_SUCCESS, w))
        \<and> tls w = established\<lparr>pxSocketContext := Some 9\<rparr>"
  by (simp add: eval_defs handshake_loop.simps env9_def env2_def env0_def creds0_def
      newlib_mbedtls_def established_def)

section \<open>Credential configuration\<close>

lemma setCredentials_authmode:
  "cfg_authmode (xSslConfig (tls (snd (setCredentials env creds ca w))))
   = Some MBEDTLS_SSL_VERIFY_NONE"
  by (simp add: setCredentials_def setRootCa_def setClientCertificate_def setPrivateKey_def
      mbedtls_ssl_conf_authmode_def engine_call_def emit_def Let_def
      split: option.splits prod.splits)

text \<open>
  C1 (not what the code does): credential configuration should leave the authentication
  mode at "verification required" unless the caller asks otherwise. setCredentials has
  no input that selects the mode; at the credentials \<open>creds0\<close> with every engine call
  succeeding, as at any other input, the mode it leaves is
  \<^verbatim>\<open>MBEDTLS_SSL_VERIFY_NONE\<close>, the line that sets \<^verbatim>\<open>MBEDTLS_SSL_VERIFY_REQUIRED\<close>
  being commented out above a \<^verbatim>\<open>TODO FIXME\<close>.
\<close>

theorem C1_setCredentials_verify_none:
  "cfg_authmode (xSslConfig (tls (snd (setCredentials env0 creds0 [1] w0))))
     = Some MBEDTLS_SSL_VERIFY_NONE
   \<and> cfg_authmode (xSslConfig (tls (snd (setCredentials env0 creds0 [1] w0))))
     \<noteq> Some MBEDTLS_SSL_VERIFY_REQUIRED"
  by (simp add: setCredentials_authmode)

section \<open>The I/O adapter\<close>

text \<open>
  C3: with case labels that compile (no retry errno is a reset errno), the send and
  recv callbacks return a nonnegative result of the socket unchanged; a negative result
  with errno EINTR, EAGAIN or EWOULDBLOCK as want-write (send) or want-read (recv); a
  negative result with errno EPIPE or ECONNRESET as connection reset; and any other
  negative result as send failed or receive failed.
\<close>

theorem C3_adapter_classification:
  assumes "errno_labels_ok K"
  shows "(0 \<le> r \<longrightarrow>
            fst (mbedtls_ssl_send K (r, e) w) = r \<and> fst (mbedtls_ssl_recv K (r, e) w) = r)
    \<and> (r < 0 \<and> e \<in> {EINTR K, EAGAIN K, EWOULDBLOCK K} \<longrightarrow>
            fst (mbedtls_ssl_send K (r, e) w) = MBEDTLS_ERR_SSL_WANT_WRITE K
          \<and> fst (mbedtls_ssl_recv K (r, e) w) = MBEDTLS_ERR_SSL_WANT_READ K)
    \<and> (r < 0 \<and> e \<in> {EPIPE K, ECONNRESET K} \<longrightarrow>
            fst (mbedtls_ssl_send K (r, e) w) = MBEDTLS_ERR_NET_CONN_RESET K
          \<and> fst (mbedtls_ssl_recv K (r, e) w) = MBEDTLS_ERR_NET_CONN_RESET K)
    \<and> (r < 0 \<and> e \<notin> {EINTR K, EAGAIN K, EWOULDBLOCK K} \<and> e \<notin> {EPIPE K, ECONNRESET K} \<longrightarrow>
            fst (mbedtls_ssl_send K (r, e) w) = MBEDTLS_ERR_NET_SEND_FAILED K
          \<and> fst (mbedtls_ssl_recv K (r, e) w) = MBEDTLS_ERR_NET_RECV_FAILED K)"
  using assms
  by (auto simp add: mbedtls_ssl_send_def mbedtls_ssl_recv_def errno_labels_ok_def Let_def)

theorem C3_adapter_classification_witness:
  "errno_labels_ok newlib_mbedtls
   \<and> fst (mbedtls_ssl_send newlib_mbedtls (5, 0) w0) = 5
   \<and> fst (mbedtls_ssl_recv newlib_mbedtls (5, 0) w0) = 5
   \<and> fst (mbedtls_ssl_recv newlib_mbedtls (- 1, 4) w0) = - 26880
   \<and> fst (mbedtls_ssl_send newlib_mbedtls (- 1, 11) w0) = - 26752
   \<and> fst (mbedtls_ssl_send newlib_mbedtls (- 1, 104) w0) = - 80
   \<and> fst (mbedtls_ssl_recv newlib_mbedtls (- 1, 32) w0) = - 80
   \<and> fst (mbedtls_ssl_send newlib_mbedtls (- 1, 5) w0) = - 78
   \<and> fst (mbedtls_ssl_recv newlib_mbedtls (- 1, 5) w0) = - 76"
proof -
  have ok: "errno_labels_ok newlib_mbedtls"
    by (simp add: errno_labels_ok_def newlib_mbedtls_def)
  note a = C3_adapter_classification [OF ok]
  show ?thesis
    using ok a [of 5 0 w0] a [of "- 1" 4 w0] a [of "- 1" 11 w0] a [of "- 1" 104 w0]
      a [of "- 1" 32 w0] a [of "- 1" 5 w0]
    by (simp add: newlib_mbedtls_def)
qed

section \<open>Steady-state transfer\<close>

text \<open>
  C5: with the engine's timeout, want-read and want-write codes negative, a send or
  recv on a context returns 0 where the engine's record write or read returns one of
  these three codes, returns any other negative code unchanged, and returns a
  nonnegative byte count unchanged.
\<close>

theorem C5_steady_state_codes:
  assumes "retry_codes_negative K"
  shows "(s \<in> {MBEDTLS_ERR_SSL_TIMEOUT K, MBEDTLS_ERR_SSL_WANT_READ K,
               MBEDTLS_ERR_SSL_WANT_WRITE K} \<longrightarrow>
            (\<exists>w. mbedtls_transport_recv K (Some c) (io, s) = Inr (0, w))
          \<and> (\<exists>w. mbedtls_transport_send K (Some c) (io, s) = Inr (0, w)))
    \<and> (s \<notin> {MBEDTLS_ERR_SSL_TIMEOUT K, MBEDTLS_ERR_SSL_WANT_READ K,
               MBEDTLS_ERR_SSL_WANT_WRITE K} \<and> s < 0 \<longrightarrow>
            (\<exists>w. mbedtls_transport_recv K (Some c) (io, s) = Inr (s, w))
          \<and> (\<exists>w. mbedtls_transport_send K (Some c) (io, s) = Inr (s, w)))
    \<and> (0 \<le> s \<longrightarrow>
            (\<exists>w. mbedtls_transport_recv K (Some c) (io, s) = Inr (s, w))
          \<and> (\<exists>w. mbedtls_transport_send K (Some c) (io, s) = Inr (s, w)))"
  using assms
  by (auto simp add: mbedtls_transport_recv_def mbedtls_transport_send_def engine_op_def
      retry_codes_negative_def Let_def)

theorem C5_steady_state_codes_witness:
  "retry_codes_negative newlib_mbedtls
   \<and> (\<exists>w. mbedtls_transport_recv newlib_mbedtls (Some established) ([], - 26880) = Inr (0, w))
   \<and> (\<exists>w. mbedtls_transport_send newlib_mbedtls (Some established) ([], - 26624) = Inr (0, w))
   \<and> (\<exists>w. mbedtls_transport_send newlib_mbedtls (Some established) ([], - 80) = Inr (- 80, w))
   \<and> (\<exists>w. mbedtls_transport_recv newlib_mbedtls (Some established) ([], 12) = Inr (12, w))"
proof -
  have ok: "retry_codes_negative newlib_mbedtls"
    by (simp add: retry_codes_negative_def newlib_mbedtls_def)
  note a = C5_steady_state_codes [OF ok]
  show ?thesis
    using ok a [of "- 26880" established "[]"] a [of "- 26624" established "[]"]
      a [of "- 80" established "[]"] a [of 12 established "[]"]
    by (simp add: newlib_mbedtls_def)
qed

section \<open>allocate\<close>

text \<open>
  C9 (not what the code does): allocate should return null for a null socket interface.
  With a null interface the code skips the allocation and then tests the local pointer
  it never assigned; where that holds a non-null value, allocate clears the memory it
  names and returns it.
\<close>

theorem C9_allocate_null_interface_returns_context:
  "mbedtls_transport_allocate (Some established) None None = Some zeroed
   \<and> mbedtls_transport_allocate (Some established) None None \<noteq> None"
  by (simp add: mbedtls_transport_allocate_def zeroed_def)

text \<open>With a socket interface, allocate returns null or a zeroed context that stores it.\<close>

lemma allocate_with_interface:
  "mbedtls_transport_allocate uninitialised pvPortMalloc_ret (Some i) = None
   \<or> mbedtls_transport_allocate uninitialised pvPortMalloc_ret (Some i)
      = Some (zeroed\<lparr>pxSocketInterface := Some i\<rparr>)"
  by (simp add: mbedtls_transport_allocate_def split: option.splits)

section \<open>Steps that leave the socket alone\<close>

lemma sock_run_append:
  "sock_run (xs @ ys) cur = (case sock_run xs cur of None \<Rightarrow> None | Some c \<Rightarrow> sock_run ys c)"
  by (induction xs arbitrary: cur) (auto split: option.splits)

lemma sock_run_fixed:
  "list_all (\<lambda>e. sock_step e h = Some h) es \<Longrightarrow> sock_run es h = Some h"
  by (induction es) auto

lemma calm_refl: "calm w w"
  by (simp add: calm_def)

lemma calm_trans: "calm a b \<Longrightarrow> calm b c \<Longrightarrow> calm a c"
  by (auto simp add: calm_def)

lemma calm_emit:
  "sock_step e (pxSocketContext (tls w)) = Some (pxSocketContext (tls w)) \<Longrightarrow> calm w (emit e w)"
  by (simp add: calm_def emit_def)

lemma calm_engine_call: "calm w (engine_call f w)"
  by (simp add: engine_call_def calm_emit)

lemma calm_tracks: "calm w w' \<Longrightarrow> tracks cur0 w \<Longrightarrow> tracks cur0 w'"
  by (auto simp add: calm_def tracks_def sock_run_append sock_run_fixed)

lemma calm_engine_init: "calm w (engine_init k w)"
  by (cases k) (simp_all add: engine_init_def calm_def emit_def)

lemma calm_engine_free: "calm w (engine_free k w)"
  by (cases k) (simp_all add: engine_free_def calm_def emit_def Let_def)

lemma calm_fold:
  "(\<And>k w. calm w (f k w)) \<Longrightarrow> calm w (fold f ks w)"
proof (induction ks arbitrary: w)
  case Nil
  show ?case by (simp add: calm_refl)
next
  case (Cons k ks)
  have "calm w (f k w)" by (rule Cons.prems)
  moreover have "calm (f k w) (fold f ks (f k w))" by (rule Cons.IH) (rule Cons.prems)
  ultimately show ?case by (simp add: calm_trans)
qed

lemma calm_tlsContextInit: "calm w (tlsContextInit w)"
  unfolding tlsContextInit_def by (rule calm_fold) (rule calm_engine_init)

lemma calm_tlsContextFree: "calm w (tlsContextFree w)"
  unfolding tlsContextFree_def by (rule calm_fold) (rule calm_engine_free)

lemma calm_bio_call: "calm w (bio_call K b w)"
  by (cases b) (simp_all add: bio_call_def mbedtls_ssl_send_def mbedtls_ssl_recv_def Let_def calm_emit)

lemma calm_engine_op: "calm w (snd (engine_op K f a w))"
proof -
  have "calm (engine_call f w) (fold (bio_call K) (fst a) (engine_call f w))"
    by (rule calm_fold) (rule calm_bio_call)
  then show ?thesis
    using calm_engine_call [of w f]
    by (auto simp add: engine_op_def Let_def intro: calm_trans)
qed

lemma calm_initMbedtls: "calm w (snd (initMbedtls env w))"
proof -
  let ?w3 = "engine_init CtrDrgbContext (engine_init EntropyContext (engine_call threading_set_alt w))"
  have "calm w ?w3"
    by (blast intro: calm_trans calm_engine_call calm_engine_init)
  moreover have "calm ?w3 (engine_call ctr_drbg_seed ?w3)" by (rule calm_engine_call)
  ultimately show ?thesis
    by (auto simp add: initMbedtls_def Let_def intro: calm_trans)
qed

lemma calm_authmode: "calm w (mbedtls_ssl_conf_authmode m w)"
  by (simp add: mbedtls_ssl_conf_authmode_def engine_call_def emit_def calm_def)

lemma calm_set_bio: "calm w (mbedtls_ssl_set_bio w)"
  by (simp add: mbedtls_ssl_set_bio_def engine_call_def emit_def calm_def)

lemma calm_setRootCa: "calm w (snd (setRootCa env ca n w))"
  by (auto simp add: setRootCa_def Let_def intro: calm_trans calm_engine_call)

lemma calm_setCredentials: "calm w (snd (setCredentials env creds ca w))"
  by (simp add: setCredentials_def setRootCa_def setClientCertificate_def setPrivateKey_def
      mbedtls_ssl_conf_authmode_def engine_call_def emit_def calm_def Let_def
      split: option.splits prod.splits)

lemma calm_setOptionalConfigurations: "calm w (setOptionalConfigurations K env h creds w)"
  by (simp add: setOptionalConfigurations_def engine_call_def emit_def calm_def Let_def)

lemma calm_tlsSetup:
  assumes "tlsSetup K env h creds w = Inr (s, w')"
  shows "calm w w'"
proof -
  have a: "calm w (engine_call ssl_config_defaults (tlsContextInit w))"
    by (blast intro: calm_trans calm_engine_call calm_tlsContextInit)
  have b: "\<And>c ca. calm w (snd (setCredentials env c ca (engine_call ssl_config_defaults (tlsContextInit w))))"
    by (blast intro: calm_trans a calm_setCredentials)
  have c: "\<And>c ca h. calm w (setOptionalConfigurations K env h c
      (snd (setCredentials env c ca (engine_call ssl_config_defaults (tlsContextInit w)))))"
    by (blast intro: calm_trans b calm_setOptionalConfigurations)
  show ?thesis
    using assms a b c
    by (auto simp add: tlsSetup_def Let_def split: option.splits if_splits prod.splits)
       (metis snd_conv)+
qed

lemma calm_handshake_loop:
  assumes "handshake_loop K script k w = Some r"
  shows "calm w (snd r)"
proof (rule handshake_loop.raw_induct [where P = "\<lambda>K script k w r. calm w (snd r)", OF _ assms])
  fix f K script k w r
  assume IH: "\<And>K script k w r. f K script k w = Some r \<Longrightarrow> calm w (snd r)"
    and body: "(if fst (engine_op K ssl_handshake (script k) w) = MBEDTLS_ERR_SSL_WANT_READ K
         \<or> fst (engine_op K ssl_handshake (script k) w) = MBEDTLS_ERR_SSL_WANT_WRITE K
      then f K script (Suc k) (snd (engine_op K ssl_handshake (script k) w))
      else Some ((fst (engine_op K ssl_handshake (script k) w), Suc k),
                 snd (engine_op K ssl_handshake (script k) w))) = Some r"
  show "calm w (snd r)"
  proof (cases "fst (engine_op K ssl_handshake (script k) w) = MBEDTLS_ERR_SSL_WANT_READ K
         \<or> fst (engine_op K ssl_handshake (script k) w) = MBEDTLS_ERR_SSL_WANT_WRITE K")
    case True
    with body have "f K script (Suc k) (snd (engine_op K ssl_handshake (script k) w)) = Some r"
      by (simp split: if_splits)
    then have "calm (snd (engine_op K ssl_handshake (script k) w)) (snd r)" by (rule IH)
    then show ?thesis by (blast intro: calm_trans calm_engine_op)
  next
    case False
    with body have "snd r = snd (engine_op K ssl_handshake (script k) w)"
      by (auto split: if_splits)
    then show ?thesis by (simp add: calm_engine_op)
  qed
qed

lemma calm_tlsHandshake:
  assumes "tlsHandshake K env creds w = Some (Inr (s, w'))"
  shows "calm w w'"
proof -
  have a: "calm w (engine_call ssl_setup w)" by (rule calm_engine_call)
  have b: "calm w (mbedtls_ssl_set_bio (engine_call ssl_setup w))"
    by (blast intro: calm_trans a calm_set_bio)
  show ?thesis
    using assms a
    by (auto simp add: tlsHandshake_def Let_def split: option.splits if_splits prod.splits
        dest!: calm_handshake_loop intro: calm_trans [OF b])
qed

section \<open>The handshake loop\<close>

lemma steps_fold_bio:
  "count_list (trace (fold (bio_call K) bs w)) (Engine f) = count_list (trace w) (Engine f)"
  by (induction bs arbitrary: w)
     (auto simp add: bio_call_def mbedtls_ssl_send_def mbedtls_ssl_recv_def emit_def Let_def
        split: bio.splits)

lemma steps_handshake_step:
  "count_list (trace (snd (engine_op K ssl_handshake a w))) (Engine ssl_handshake)
   = Suc (count_list (trace w) (Engine ssl_handshake))"
  by (simp add: engine_op_def Let_def steps_fold_bio engine_call_def emit_def)

lemma handshake_loop_ends:
  assumes "\<forall>i<N. snd (script (k + i)) \<in> {MBEDTLS_ERR_SSL_WANT_READ K, MBEDTLS_ERR_SSL_WANT_WRITE K}"
    and "snd (script (k + N)) \<notin> {MBEDTLS_ERR_SSL_WANT_READ K, MBEDTLS_ERR_SSL_WANT_WRITE K}"
  shows "\<exists>w'. handshake_loop K script k w = Some ((snd (script (k + N)), Suc (k + N)), w')
           \<and> count_list (trace w') (Engine ssl_handshake)
             = count_list (trace w) (Engine ssl_handshake) + N + 1"
  using assms
proof (induction N arbitrary: k w)
  case 0
  then show ?case
    by (subst handshake_loop.simps) (simp add: steps_handshake_step, simp add: engine_op_def Let_def)
next
  case (Suc N)
  have retry: "snd (script k) \<in> {MBEDTLS_ERR_SSL_WANT_READ K, MBEDTLS_ERR_SSL_WANT_WRITE K}"
    using Suc.prems(1) by force
  have a: "\<forall>i<N. snd (script (Suc k + i)) \<in> {MBEDTLS_ERR_SSL_WANT_READ K, MBEDTLS_ERR_SSL_WANT_WRITE K}"
    using Suc.prems(1) by force
  have b: "snd (script (Suc k + N)) \<notin> {MBEDTLS_ERR_SSL_WANT_READ K, MBEDTLS_ERR_SSL_WANT_WRITE K}"
    using Suc.prems(2) by simp
  from Suc.IH [OF a b, of "snd (engine_op K ssl_handshake (script k) w)"]
  obtain w' where l: "handshake_loop K script (Suc k) (snd (engine_op K ssl_handshake (script k) w))
      = Some ((snd (script (Suc k + N)), Suc (Suc k + N)), w')"
    and c: "count_list (trace w') (Engine ssl_handshake)
      = count_list (trace (snd (engine_op K ssl_handshake (script k) w))) (Engine ssl_handshake) + N + 1"
    by blast
  have "fst (engine_op K ssl_handshake (script k) w) = snd (script k)"
    by (simp add: engine_op_def Let_def)
  with retry have "handshake_loop K script k w
      = handshake_loop K script (Suc k) (snd (engine_op K ssl_handshake (script k) w))"
    by (subst handshake_loop.simps) auto
  with l c show ?case by (simp add: steps_handshake_step)
qed

lemma steps_engine_init:
  "count_list (trace (engine_init k w)) (Engine f) = count_list (trace w) (Engine f)"
  by (simp add: engine_init_def emit_def)

lemma steps_engine_free:
  "count_list (trace (engine_free k w)) (Engine f) = count_list (trace w) (Engine f)"
  by (simp add: engine_free_def emit_def Let_def)

lemma steps_fold:
  "(\<And>k w. count_list (trace (g k w)) e = count_list (trace w) e)
   \<Longrightarrow> count_list (trace (fold g ks w)) e = count_list (trace w) e"
  by (induction ks arbitrary: w) auto

lemma steps_tlsContextFree:
  "count_list (trace (tlsContextFree w)) (Engine f) = count_list (trace w) (Engine f)"
  unfolding tlsContextFree_def by (rule steps_fold) (rule steps_engine_free)

lemma steps_tlsContextInit:
  "count_list (trace (tlsContextInit w)) (Engine f) = count_list (trace w) (Engine f)"
  unfolding tlsContextInit_def by (rule steps_fold) (rule steps_engine_init)

lemma steps_close_if_open:
  "count_list (trace (close_if_open w)) (Engine f) = count_list (trace w) (Engine f)"
  by (simp add: close_if_open_def emit_def split: option.splits)

lemma steps_connect_cleanup:
  "count_list (trace (snd (connect_cleanup r))) (Engine f) = count_list (trace (snd r)) (Engine f)"
  by (simp add: connect_cleanup_def steps_close_if_open steps_tlsContextFree)

lemma connect_socket_accepts:
  assumes "env_accepts K env"
  shows "fst (connect_socket K env h p rt st TLS_TRANSPORT_SUCCESS w) = TLS_TRANSPORT_SUCCESS
    \<and> count_list (trace (snd (connect_socket K env h p rt st TLS_TRANSPORT_SUCCESS w))) (Engine ssl_handshake)
      = count_list (trace w) (Engine ssl_handshake)"
  using assms
  by (auto simp add: env_accepts_def connect_socket_def initMbedtls_def Let_def emit_def
      engine_call_def engine_init_def close_if_open_def split: option.splits)

lemma setCredentials_accepts:
  assumes "env_accepts K env"
  shows "fst (setCredentials env creds ca w) = 0
    \<and> count_list (trace (snd (setCredentials env creds ca w))) (Engine ssl_handshake)
      = count_list (trace w) (Engine ssl_handshake)"
  using assms
  by (auto simp add: env_accepts_def setCredentials_def setRootCa_def setClientCertificate_def
      setPrivateKey_def mbedtls_ssl_conf_authmode_def engine_call_def emit_def Let_def
      split: option.splits)

lemma tlsSetup_accepts:
  assumes "env_accepts K env" and "pRootCa creds \<noteq> None"
  shows "\<exists>w'. tlsSetup K env (Some host) (Some creds) w = Inr (TLS_TRANSPORT_SUCCESS, w')
    \<and> count_list (trace w') (Engine ssl_handshake) = count_list (trace w) (Engine ssl_handshake)"
proof -
  from assms(2) obtain ca where ca: "pRootCa creds = Some ca" by auto
  let ?w2 = "engine_call ssl_config_defaults (tlsContextInit w)"
  have c2: "count_list (trace ?w2) (Engine ssl_handshake) = count_list (trace w) (Engine ssl_handshake)"
    by (simp add: engine_call_def emit_def steps_tlsContextInit)
  note sc = setCredentials_accepts [OF assms(1), of creds ca ?w2]
  have d: "config_defaults_ret env = 0" using assms(1) by (simp add: env_accepts_def)
  show ?thesis
    using sc c2 d ca
    by (simp add: tlsSetup_def Let_def case_prod_beta setOptionalConfigurations_def
        engine_call_def emit_def)
qed

lemma tlsHandshake_accepts:
  assumes "ssl_setup_ret env = 0"
    and "\<forall>i<N. snd (handshake_script env i)
            \<in> {MBEDTLS_ERR_SSL_WANT_READ K, MBEDTLS_ERR_SSL_WANT_WRITE K}"
    and "snd (handshake_script env N)
            \<notin> {MBEDTLS_ERR_SSL_WANT_READ K, MBEDTLS_ERR_SSL_WANT_WRITE K}"
  shows "\<exists>w'. tlsHandshake K env (Some creds) w
             = Some (Inr (if snd (handshake_script env N) = 0 then TLS_TRANSPORT_SUCCESS
                          else TLS_TRANSPORT_HANDSHAKE_FAILED, w'))
    \<and> count_list (trace w') (Engine ssl_handshake)
      = count_list (trace w) (Engine ssl_handshake) + N + 1"
proof -
  let ?w2 = "mbedtls_ssl_set_bio (engine_call ssl_setup w)"
  have c2: "count_list (trace ?w2) (Engine ssl_handshake) = count_list (trace w) (Engine ssl_handshake)"
    by (simp add: mbedtls_ssl_set_bio_def engine_call_def emit_def)
  from handshake_loop_ends [of N "handshake_script env" 0 K ?w2] assms(2,3)
  obtain w' where l: "handshake_loop K (handshake_script env) 0 ?w2
        = Some ((snd (handshake_script env N), Suc N), w')"
    and c: "count_list (trace w') (Engine ssl_handshake)
        = count_list (trace ?w2) (Engine ssl_handshake) + N + 1"
    by auto
  show ?thesis
    using l c c2 assms(1) by (simp add: tlsHandshake_def Let_def)
qed

text \<open>
  C4: connect on a context with a socket interface, with a hostname and a trust anchor,
  and with collaborators that accept every stage before the handshake. If the first
  \<open>N\<close> handshake steps return want-read or want-write and the next one returns any
  other code, connect returns after exactly \<open>N + 1\<close> calls of the handshake step, with
  Success where that code is 0 and HandshakeFailed otherwise. In particular \<open>N\<close>
  want-read answers followed by success give Success after \<open>N + 1\<close> steps.
\<close>

theorem C4_handshake_retries:
  assumes "pxSocketInterface c \<noteq> None" and "pRootCa creds \<noteq> None"
    and "env_accepts K env"
    and "\<forall>i<N. snd (handshake_script env i)
            \<in> {MBEDTLS_ERR_SSL_WANT_READ K, MBEDTLS_ERR_SSL_WANT_WRITE K}"
    and "snd (handshake_script env N)
            \<notin> {MBEDTLS_ERR_SSL_WANT_READ K, MBEDTLS_ERR_SSL_WANT_WRITE K}"
  shows "\<exists>w. mbedtls_transport_connect K (Some c) (Some host) port (Some creds)
                receiveTimeoutMs sendTimeoutMs env
              = Some (Inr (if snd (handshake_script env N) = 0 then TLS_TRANSPORT_SUCCESS
                           else TLS_TRANSPORT_HANDSHAKE_FAILED, w))
           \<and> count_list (trace w) (Engine ssl_handshake) = N + 1"
proof -
  let ?r5 = "connect_socket K env (Some host) port receiveTimeoutMs sendTimeoutMs
               TLS_TRANSPORT_SUCCESS \<lparr>tls = c, trace = []\<rparr>"
  have v: "connect_validate (Some c) (Some host) (Some creds) = TLS_TRANSPORT_SUCCESS"
    using assms(2) by (simp add: connect_validate_def)
  have s5: "fst ?r5 = TLS_TRANSPORT_SUCCESS"
    and c5: "count_list (trace (snd ?r5)) (Engine ssl_handshake) = 0"
    using connect_socket_accepts [OF assms(3), of "Some host" port receiveTimeoutMs sendTimeoutMs
        "\<lparr>tls = c, trace = []\<rparr>"] by simp_all
  from tlsSetup_accepts [OF assms(3) assms(2), of host "snd ?r5"]
  obtain w6 where s6: "tlsSetup K env (Some host) (Some creds) (snd ?r5)
        = Inr (TLS_TRANSPORT_SUCCESS, w6)"
    and c6: "count_list (trace w6) (Engine ssl_handshake) = 0"
    using c5 by auto
  have "ssl_setup_ret env = 0" using assms(3) by (simp add: env_accepts_def)
  from tlsHandshake_accepts [OF this assms(4) assms(5), of creds w6]
  obtain w7 where s7: "tlsHandshake K env (Some creds) w6
        = Some (Inr (if snd (handshake_script env N) = 0 then TLS_TRANSPORT_SUCCESS
                     else TLS_TRANSPORT_HANDSHAKE_FAILED, w7))"
    and c7: "count_list (trace w7) (Engine ssl_handshake) = N + 1"
    using c6 by auto
  let ?r7 = "(if snd (handshake_script env N) = 0 then TLS_TRANSPORT_SUCCESS
              else TLS_TRANSPORT_HANDSHAKE_FAILED, w7)"
  have r: "mbedtls_transport_connect K (Some c) (Some host) port (Some creds)
             receiveTimeoutMs sendTimeoutMs env = Some (Inr (connect_cleanup ?r7))"
    using assms(1) v s5 s6 s7
    by (simp add: mbedtls_transport_connect_def Let_def case_prod_beta)
  have f: "fst (connect_cleanup ?r7) = fst ?r7" by (simp add: connect_cleanup_def)
  have "count_list (trace (snd (connect_cleanup ?r7))) (Engine ssl_handshake) = N + 1"
    using c7 by (simp add: steps_connect_cleanup)
  with r f show ?thesis
    by (metis prod.collapse fst_conv)
qed

theorem C4_handshake_retries_witness:
  "pxSocketInterface fresh1 \<noteq> None \<and> pRootCa creds0 \<noteq> None \<and> env_accepts newlib_mbedtls env2
   \<and> snd (handshake_script env2 0) = MBEDTLS_ERR_SSL_WANT_READ newlib_mbedtls
   \<and> snd (handshake_script env2 1) = MBEDTLS_ERR_SSL_WANT_READ newlib_mbedtls
   \<and> snd (handshake_script env2 2) = 0
   \<and> (\<exists>w. mbedtls_transport_connect newlib_mbedtls (Some fresh1) (Some ''broker'') 8883 (Some creds0)
             1000 1000 env2 = Some (Inr (TLS_TRANSPORT_SUCCESS, w))
          \<and> count_list (trace w) (Engine ssl_handshake) = 3)"
proof -
  have a: "pxSocketInterface fresh1 \<noteq> None" by (simp add: fresh1_def)
  have b: "pRootCa creds0 \<noteq> None" by (simp add: creds0_def)
  have c: "env_accepts newlib_mbedtls env2"
    by (simp add: env_accepts_def env2_def env0_def newlib_mbedtls_def)
  have d: "snd (handshake_script env2 0) = MBEDTLS_ERR_SSL_WANT_READ newlib_mbedtls"
    "snd (handshake_script env2 1) = MBEDTLS_ERR_SSL_WANT_READ newlib_mbedtls"
    by (simp_all add: env2_def env0_def newlib_mbedtls_def)
  have d': "\<forall>i<2. snd (handshake_script env2 i)
      \<in> {MBEDTLS_ERR_SSL_WANT_READ newlib_mbedtls, MBEDTLS_ERR_SSL_WANT_WRITE newlib_mbedtls}"
    by (simp add: env2_def env0_def newlib_mbedtls_def)
  have e: "snd (handshake_script env2 2) = 0" by (simp add: env2_def env0_def)
  then have e': "snd (handshake_script env2 2)
      \<notin> {MBEDTLS_ERR_SSL_WANT_READ newlib_mbedtls, MBEDTLS_ERR_SSL_WANT_WRITE newlib_mbedtls}"
    by (simp add: newlib_mbedtls_def)
  from C4_handshake_retries [OF a b c d' e', of "''broker''" 8883 1000 1000]
  show ?thesis using a b c d e by simp
qed

section \<open>Teardown\<close>

lemma fold_bio_call:
  "fold (bio_call K) bs w = w\<lparr>trace := trace w @ map (bio_event (pxSocketContext (tls w))) bs\<rparr>"
  by (induction bs arbitrary: w)
     (auto simp add: bio_call_def bio_event_def mbedtls_ssl_send_def mbedtls_ssl_recv_def
        emit_def Let_def split: bio.splits)

lemma res_of_set_res: "res_of k (set_res j s c) = (if k = j then s else res_of k c)"
  by (cases k; cases j) simp_all

lemma engine_free_tls: "tls (engine_free k w) = set_res k Zeroed (tls w)"
  by (simp add: engine_free_def emit_def Let_def)

lemma engine_free_trace:
  "trace (engine_free k w)
   = trace w @ EngineFree k # (if res_of k (tls w) = InUse then [Released k] else [])"
  by (simp add: engine_free_def emit_def Let_def)

lemma tlsContextFree_tls: "tls (tlsContextFree w) = released (tls w)"
  by (simp add: tlsContextFree_def engine_free_tls released_def)

lemma tlsContextFree_trace: "trace (tlsContextFree w) = trace w @ free_events (tls w)"
  by (simp add: tlsContextFree_def engine_free_tls engine_free_trace res_of_set_res free_events_def
      split del: if_split)

lemma count_bio_events_close [simp]: "count_list (map (bio_event h') bs) (SockClose h) = 0"
  by (induction bs) (auto simp add: bio_event_def split: bio.splits)

lemma count_bio_events_released [simp]: "count_list (map (bio_event h') bs) (Released k) = 0"
  by (induction bs) (auto simp add: bio_event_def split: bio.splits)

lemma count_bio_events_engine [simp]: "count_list (map (bio_event h') bs) (Engine f) = 0"
  by (induction bs) (auto simp add: bio_event_def split: bio.splits)

lemma count_bio_events_free [simp]: "count_list (map (bio_event h') bs) (EngineFree k) = 0"
  by (induction bs) (auto simp add: bio_event_def split: bio.splits)

lemma count_list_if_single:
  "count_list (if b then [x] else []) e = (if b \<and> x = e then 1 else 0)"
  by (cases b) simp_all

lemma handle_update_same: "pxSocketContext c = h \<Longrightarrow> c\<lparr>pxSocketContext := h\<rparr> = c"
  by (rule TLSContext.equality) simp_all

lemma count_free_events_close [simp]: "count_list (free_events c) (SockClose h) = 0"
  by (simp add: free_events_def count_list_if_single split del: if_split)

lemma count_free_events_engine [simp]: "count_list (free_events c) (Engine f) = 0"
  by (simp add: free_events_def count_list_if_single split del: if_split)

lemma count_free_events_released:
  "count_list (free_events c) (Released k) = (if res_of k c = InUse then 1 else 0)"
  by (cases k) (simp_all add: free_events_def count_list_if_single split del: if_split)

lemma count_free_events_free: "count_list (free_events c) (EngineFree k) = 1"
  by (cases k) (simp_all add: free_events_def count_list_if_single split del: if_split)

lemma free_events_released [simp]: "free_events (released c) = map EngineFree
    [SslContext, RootCaCert, ClientCert, PrivKey, EntropyContext, CtrDrgbContext, SslConfig]"
  by (simp add: free_events_def released_def)

lemma free_events_handle [simp]: "free_events (c\<lparr>pxSocketContext := h\<rparr>) = free_events c"
  by (simp add: free_events_def)

lemma released_idem [simp]: "released (released c) = released c"
  by (simp add: released_def)

lemma res_of_released [simp]: "res_of k (released c) = Zeroed"
  by (cases k) (simp_all add: released_def)

lemma disconnect_explicit:
  assumes "pxSocketContext c \<noteq> None \<Longrightarrow> pxSocketInterface c \<noteq> None"
  shows "mbedtls_transport_disconnect K (Some c) a
    = Inr (Some (released (c\<lparr>pxSocketContext := None\<rparr>)),
           Engine ssl_close_notify
           # (if ssl_bio (xSslContext c) then map (bio_event (pxSocketContext c)) (fst a) else [])
           @ (case pxSocketContext c of None \<Rightarrow> [] | Some h \<Rightarrow> [SockClose h])
           @ free_events c @ [Engine threading_free_alt])"
proof (cases "pxSocketContext c")
  case None
  then show ?thesis
    by (simp add: mbedtls_transport_disconnect_def engine_op_def Let_def fold_bio_call
        close_if_open_def engine_call_def emit_def tlsContextFree_tls tlsContextFree_trace
        handle_update_same)
next
  case (Some h)
  with assms have "pxSocketInterface c \<noteq> None" by simp
  with Some show ?thesis
    by (simp add: mbedtls_transport_disconnect_def engine_op_def Let_def fold_bio_call
        close_if_open_def engine_call_def emit_def tlsContextFree_tls tlsContextFree_trace)
qed

text \<open>
  C6: disconnect on a context whose socket, if one is open, came from a socket
  interface. Whatever the close-notify does and returns (success, failure, want-read or
  want-write), disconnect calls it once, closes the open socket once and leaves the
  handle null, calls the free function of each of the seven engine structures once,
  releases each one that was in use, and leaves all of them zeroed.
\<close>

theorem C6_disconnect_releases_everything:
  assumes "pxSocketContext c \<noteq> None \<Longrightarrow> pxSocketInterface c \<noteq> None"
  shows "\<exists>c' tr. mbedtls_transport_disconnect K (Some c) (io, close_notify_ret) = Inr (Some c', tr)
    \<and> pxSocketContext c' = None
    \<and> (\<forall>h. pxSocketContext c = Some h \<longrightarrow> count_list tr (SockClose h) = 1)
    \<and> (\<forall>k. res_of k c' = Zeroed \<and> count_list tr (EngineFree k) = 1
            \<and> (res_of k c = InUse \<longrightarrow> count_list tr (Released k) = 1))
    \<and> count_list tr (Engine ssl_close_notify) = 1"
  by (simp add: disconnect_explicit [OF assms] count_free_events_released
      count_free_events_free)
     (simp add: released_def)

lemma res_of_established [simp]: "res_of k established = InUse"
  by (cases k) (simp_all add: established_def)

theorem C6_disconnect_releases_everything_witness:
  "pxSocketInterface established \<noteq> None
   \<and> (\<exists>c' tr. mbedtls_transport_disconnect newlib_mbedtls (Some established)
                 ([BioSend (- 1) 11], MBEDTLS_ERR_SSL_WANT_WRITE newlib_mbedtls) = Inr (Some c', tr)
        \<and> pxSocketContext c' = None \<and> count_list tr (SockClose 8) = 1
        \<and> (\<forall>k. res_of k c' = Zeroed \<and> count_list tr (EngineFree k) = 1
                \<and> count_list tr (Released k) = 1)
        \<and> count_list tr (Engine ssl_close_notify) = 1)"
proof -
  have a: "pxSocketContext established \<noteq> None \<Longrightarrow> pxSocketInterface established \<noteq> None"
    by (simp add: established_def)
  have h: "pxSocketContext established = Some 8" by (simp add: established_def)
  from C6_disconnect_releases_everything [OF a, of newlib_mbedtls "[BioSend (- 1) 11]"
      "MBEDTLS_ERR_SSL_WANT_WRITE newlib_mbedtls"]
  moreover have "pxSocketInterface established \<noteq> None" by (simp add: established_def)
  ultimately show ?thesis using h by auto
qed

lemma disconnect_released:
  "mbedtls_transport_disconnect K (Some (released (c\<lparr>pxSocketContext := None\<rparr>))) a
   = Inr (Some (released (c\<lparr>pxSocketContext := None\<rparr>)),
          Engine ssl_close_notify
          # map EngineFree [SslContext, RootCaCert, ClientCert, PrivKey, EntropyContext,
                            CtrDrgbContext, SslConfig]
          @ [Engine threading_free_alt])"
proof -
  let ?c1 = "released (c\<lparr>pxSocketContext := None\<rparr>)"
  have h1: "pxSocketContext ?c1 = None" and b1: "\<not> ssl_bio (xSslContext ?c1)"
    by (simp_all add: released_def)
  show ?thesis
    using h1 b1
    by (simp add: mbedtls_transport_disconnect_def engine_op_def Let_def
        close_if_open_def engine_call_def emit_def tlsContextFree_tls tlsContextFree_trace)
qed

text \<open>
  C8: two disconnects in a row on a context in any state (established, fresh, or left
  by a connect that failed part-way), whose socket, if one is open, came from a socket
  interface. Both return. Over the two calls the socket is closed once if one was open
  and never otherwise, and each engine structure is released once if it was in use and
  never otherwise. The second call changes nothing in the context and makes no call
  but the close-notify and the seven free calls, which release nothing.
\<close>

theorem C8_disconnect_twice:
  assumes "pxSocketContext c \<noteq> None \<Longrightarrow> pxSocketInterface c \<noteq> None"
  shows "\<exists>c1 tr1 tr2.
      mbedtls_transport_disconnect K (Some c) a1 = Inr (Some c1, tr1)
    \<and> mbedtls_transport_disconnect K (Some c1) a2 = Inr (Some c1, tr2)
    \<and> (\<forall>h. count_list (tr1 @ tr2) (SockClose h) = (if pxSocketContext c = Some h then 1 else 0))
    \<and> (\<forall>k. count_list (tr1 @ tr2) (Released k) = (if res_of k c = InUse then 1 else 0))
    \<and> tr2 = Engine ssl_close_notify
             # map EngineFree [SslContext, RootCaCert, ClientCert, PrivKey, EntropyContext,
                               CtrDrgbContext, SslConfig]
             @ [Engine threading_free_alt]"
  by (simp add: disconnect_explicit [OF assms] disconnect_released count_free_events_released
      split: option.splits)

theorem C8_disconnect_twice_witness:
  "pxSocketInterface established \<noteq> None
   \<and> pxSocketContext fresh1 = None
   \<and> (\<exists>c1 tr1 tr2.
        mbedtls_transport_disconnect newlib_mbedtls (Some established) ([], 0) = Inr (Some c1, tr1)
      \<and> mbedtls_transport_disconnect newlib_mbedtls (Some c1) ([BioSend 1 0], 0) = Inr (Some c1, tr2)
      \<and> count_list (tr1 @ tr2) (SockClose 8) = 1
      \<and> (\<forall>k. count_list (tr1 @ tr2) (Released k) = 1))
   \<and> (\<exists>c1 tr1 tr2.
        mbedtls_transport_disconnect newlib_mbedtls (Some fresh1) ([], - 1) = Inr (Some c1, tr1)
      \<and> mbedtls_transport_disconnect newlib_mbedtls (Some c1) ([], - 1) = Inr (Some c1, tr2)
      \<and> (\<forall>h. count_list (tr1 @ tr2) (SockClose h) = 0)
      \<and> (\<forall>k. count_list (tr1 @ tr2) (Released k) = 0))"
proof -
  have a: "pxSocketContext established \<noteq> None \<Longrightarrow> pxSocketInterface established \<noteq> None"
    by (simp add: established_def)
  have b: "pxSocketContext fresh1 \<noteq> None \<Longrightarrow> pxSocketInterface fresh1 \<noteq> None"
    by (simp add: fresh1_def)
  have h: "pxSocketContext established = Some 8" by (simp add: established_def)
  have f: "pxSocketContext fresh1 = None" "\<And>k. res_of k fresh1 = Zeroed"
    subgoal by (simp add: fresh1_def zeroed_def)
    subgoal for k by (cases k) (simp_all add: fresh1_def zeroed_def)
    done
  from C8_disconnect_twice [OF a, of newlib_mbedtls "([], 0)" "([BioSend 1 0], 0)"]
  have 1: "\<exists>c1 tr1 tr2.
        mbedtls_transport_disconnect newlib_mbedtls (Some established) ([], 0) = Inr (Some c1, tr1)
      \<and> mbedtls_transport_disconnect newlib_mbedtls (Some c1) ([BioSend 1 0], 0) = Inr (Some c1, tr2)
      \<and> count_list (tr1 @ tr2) (SockClose 8) = 1
      \<and> (\<forall>k. count_list (tr1 @ tr2) (Released k) = 1)"
    using h by auto
  from C8_disconnect_twice [OF b, of newlib_mbedtls "([], - 1)" "([], - 1)"]
  have 2: "\<exists>c1 tr1 tr2.
        mbedtls_transport_disconnect newlib_mbedtls (Some fresh1) ([], - 1) = Inr (Some c1, tr1)
      \<and> mbedtls_transport_disconnect newlib_mbedtls (Some c1) ([], - 1) = Inr (Some c1, tr2)
      \<and> (\<forall>h. count_list (tr1 @ tr2) (SockClose h) = 0)
      \<and> (\<forall>k. count_list (tr1 @ tr2) (Released k) = 0)"
    using f by auto
  have i: "pxSocketInterface established \<noteq> None" by (simp add: established_def)
  show ?thesis using i f(1) 1 2 by blast
qed

section \<open>Parameter validation in connect\<close>

lemma tlsContextFree_explicit:
  "tlsContextFree w = \<lparr>tls = released (tls w), trace = trace w @ free_events (tls w)\<rparr>"
  by (rule world.equality) (simp_all add: tlsContextFree_tls tlsContextFree_trace)

lemma free_events_established:
  "free_events established =
     [EngineFree SslContext, Released SslContext, EngineFree RootCaCert, Released RootCaCert,
      EngineFree ClientCert, Released ClientCert, EngineFree PrivKey, Released PrivKey,
      EngineFree EntropyContext, Released EntropyContext,
      EngineFree CtrDrgbContext, Released CtrDrgbContext,
      EngineFree SslConfig, Released SslConfig]"
  by (simp add: free_events_def established_def)

lemma released_handle [simp]: "pxSocketContext (released c) = pxSocketContext c"
  by (simp add: released_def)

lemma released_update_handle [simp]:
  "(released c)\<lparr>pxSocketContext := h\<rparr> = released (c\<lparr>pxSocketContext := h\<rparr>)"
  by (simp add: released_def)

lemma connect_null_hostname:
  "mbedtls_transport_connect newlib_mbedtls (Some established) None 8883 (Some creds0)
     1000 1000 env9
   = Some (Inr (TLS_TRANSPORT_INVALID_PARAMETER,
       \<lparr>tls = released (established\<lparr>pxSocketContext := None\<rparr>),
        trace = [SockClose 8, SockSocket (Some 9),
          EngineFree SslContext, Released SslContext, EngineFree RootCaCert, Released RootCaCert,
          EngineFree ClientCert, Released ClientCert, EngineFree PrivKey, Released PrivKey,
          EngineFree EntropyContext, Released EntropyContext,
          EngineFree CtrDrgbContext, Released CtrDrgbContext,
          EngineFree SslConfig, Released SslConfig, SockClose 9]\<rparr>))"
proof -
  have i: "pxSocketInterface established \<noteq> None" and h: "pxSocketContext established = Some 8"
    by (simp_all add: established_def)
  have s: "socket_ret env9 = Some 9" by (simp add: env9_def)
  show ?thesis
    using i h
    by (simp add: mbedtls_transport_connect_def connect_validate_def connect_socket_def
        connect_cleanup_def close_if_open_def emit_def Let_def tlsContextFree_explicit
        free_events_established s)
qed

lemma connect_null_root_ca_no_socket:
  "mbedtls_transport_connect newlib_mbedtls (Some fresh1) (Some ''broker'') 8883
     (Some (creds0\<lparr>pRootCa := None\<rparr>)) 1000 1000 (env0\<lparr>socket_ret := None\<rparr>)
   = Some (Inr (TLS_TRANSPORT_INTERNAL_ERROR,
       \<lparr>tls = fresh1,
        trace = [SockSocket None, EngineFree SslContext, EngineFree RootCaCert,
          EngineFree ClientCert, EngineFree PrivKey, EngineFree EntropyContext,
          EngineFree CtrDrgbContext, EngineFree SslConfig]\<rparr>))"
  by (simp add: eval_defs env0_def creds0_def newlib_mbedtls_def fresh1_def zeroed_def)

text \<open>
  C2 (not what the code does): a connect with a null hostname, context, credentials or
  trust anchor should return InvalidParameter, make no socket call and leave the context
  as it is. The test of the parameters only sets the status: the close of the old
  socket and the \<^verbatim>\<open>socket\<close> call that follow are not under
  \<^verbatim>\<open>if( returnStatus == TLS_TRANSPORT_SUCCESS )\<close> as the later stages are. With a
  null hostname on an established context, connect closes socket 8, allocates socket 9,
  releases every engine structure, closes socket 9 and leaves the context without a
  connection. With a null trust anchor and a \<^verbatim>\<open>socket\<close> call that fails, the status
  is InternalError. With a null context, line 756 reads through the pointer before
  line 760 tests it.
\<close>

theorem C2_connect_invalid_parameter_side_effects:
  "mbedtls_transport_connect newlib_mbedtls (Some established) None 8883 (Some creds0)
     1000 1000 env9
   = Some (Inr (TLS_TRANSPORT_INVALID_PARAMETER,
       \<lparr>tls = released (established\<lparr>pxSocketContext := None\<rparr>),
        trace = [SockClose 8, SockSocket (Some 9),
          EngineFree SslContext, Released SslContext, EngineFree RootCaCert, Released RootCaCert,
          EngineFree ClientCert, Released ClientCert, EngineFree PrivKey, Released PrivKey,
          EngineFree EntropyContext, Released EntropyContext,
          EngineFree CtrDrgbContext, Released CtrDrgbContext,
          EngineFree SslConfig, Released SslConfig, SockClose 9]\<rparr>))
   \<and> released (established\<lparr>pxSocketContext := None\<rparr>) \<noteq> established
   \<and> mbedtls_transport_connect newlib_mbedtls (Some fresh1) (Some ''broker'') 8883
        (Some (creds0\<lparr>pRootCa := None\<rparr>)) 1000 1000 (env0\<lparr>socket_ret := None\<rparr>)
     = Some (Inr (TLS_TRANSPORT_INTERNAL_ERROR,
         \<lparr>tls = fresh1,
          trace = [SockSocket None, EngineFree SslContext, EngineFree RootCaCert,
            EngineFree ClientCert, EngineFree PrivKey, EngineFree EntropyContext,
            EngineFree CtrDrgbContext, EngineFree SslConfig]\<rparr>))
   \<and> mbedtls_transport_connect newlib_mbedtls None (Some ''broker'') 8883 (Some creds0)
        1000 1000 env0 = Some (Inl NullDereference)"
proof -
  have "pxSocketContext (released (established\<lparr>pxSocketContext := None\<rparr>))
        \<noteq> pxSocketContext established"
    by (simp add: released_def established_def)
  then have "released (established\<lparr>pxSocketContext := None\<rparr>) \<noteq> established" by metis
  then show ?thesis
    by (simp add: connect_null_hostname connect_null_root_ca_no_socket)
       (simp add: mbedtls_transport_connect_def)
qed

section \<open>The socket handle follows the trace\<close>

lemma tracks_close_if_open: "tracks cur0 w \<Longrightarrow> tracks cur0 (close_if_open w)"
  by (auto simp add: tracks_def close_if_open_def emit_def sock_run_append split: option.splits)

lemma close_if_open_handle [simp]: "pxSocketContext (tls (close_if_open w)) = None"
  by (simp add: close_if_open_def emit_def split: option.splits)

lemma tracks_connect_socket:
  assumes "tracks cur0 w"
  shows "tracks cur0 (snd (connect_socket K env h p rt st s0 w))"
proof -
  have "tracks cur0 (close_if_open w)" using assms by (rule tracks_close_if_open)
  then show ?thesis
    by (auto simp add: connect_socket_def Let_def tracks_def emit_def sock_run_append
        split: if_splits prod.splits
        intro!: calm_tracks [OF calm_initMbedtls, unfolded tracks_def])
qed

lemma tracks_connect_cleanup: "tracks cur0 (snd r) \<Longrightarrow> tracks cur0 (snd (connect_cleanup r))"
  by (auto simp add: connect_cleanup_def intro: tracks_close_if_open calm_tracks calm_tlsContextFree)

lemma tracks_connect:
  assumes "mbedtls_transport_connect K (Some c) h p creds rt st env = Some (Inr r)"
  shows "tracks (pxSocketContext c) (snd r)"
proof -
  have t0: "tracks (pxSocketContext c) \<lparr>tls = c, trace = []\<rparr>" by (simp add: tracks_def)
  let ?r5 = "connect_socket K env h p rt st (connect_validate (Some c) h creds) \<lparr>tls = c, trace = []\<rparr>"
  have t5: "tracks (pxSocketContext c) (snd ?r5)" using t0 by (rule tracks_connect_socket)
  obtain s6 w6 where r6: "(if fst ?r5 = TLS_TRANSPORT_SUCCESS then tlsSetup K env h creds (snd ?r5)
      else Inr ?r5) = Inr (s6, w6)"
    using assms
    by (auto simp add: mbedtls_transport_connect_def Let_def split: if_splits prod.splits sum.splits)
  have t6: "tracks (pxSocketContext c) w6"
    using r6 t5 by (auto split: if_splits dest!: calm_tlsSetup intro: calm_tracks)
  obtain r7 where r7: "(if s6 = TLS_TRANSPORT_SUCCESS then tlsHandshake K env creds w6
      else Some (Inr (s6, w6))) = Some (Inr r7)" and r: "r = connect_cleanup r7"
    using assms r6
    by (auto simp add: mbedtls_transport_connect_def Let_def split: if_splits prod.splits sum.splits option.splits)
  have t7: "tracks (pxSocketContext c) (snd r7)"
    using r7 t6 by (cases r7) (auto split: if_splits dest!: calm_tlsHandshake intro: calm_tracks)
  show ?thesis unfolding r using t7 by (rule tracks_connect_cleanup)
qed

lemma calm_prefix: "calm w w' \<Longrightarrow> prefix (trace w) (trace w')"
  by (auto simp add: calm_def)

lemma prefix_close_if_open: "prefix (trace w) (trace (close_if_open w))"
  by (simp add: close_if_open_def emit_def split: option.splits)

lemma disconnect_tracks:
  assumes "mbedtls_transport_disconnect K (Some c) a = Inr (co, tr)"
  shows "\<exists>c'. co = Some c' \<and> pxSocketContext c' = None
            \<and> tracks (pxSocketContext c) \<lparr>tls = c', trace = tr\<rparr>"
proof -
  let ?w1 = "snd (engine_op K ssl_close_notify a \<lparr>tls = c, trace = []\<rparr>)"
  let ?w4 = "engine_call threading_free_alt (tlsContextFree (close_if_open ?w1))"
  have t0: "tracks (pxSocketContext c) \<lparr>tls = c, trace = []\<rparr>" by (simp add: tracks_def)
  have t1: "tracks (pxSocketContext c) ?w1" using calm_engine_op t0 by (rule calm_tracks)
  have c4: "calm (close_if_open ?w1) ?w4"
    by (blast intro: calm_trans calm_tlsContextFree calm_engine_call)
  have t4: "tracks (pxSocketContext c) ?w4"
    using c4 tracks_close_if_open [OF t1] by (rule calm_tracks)
  have h4: "pxSocketContext (tls ?w4) = None" using c4 by (simp add: calm_def)
  have "co = Some (tls ?w4) \<and> tr = trace ?w4"
    using assms
    by (auto simp add: mbedtls_transport_disconnect_def Let_def split: prod.splits if_splits)
  then show ?thesis using t4 h4 by (simp add: tracks_def)
qed

lemma recv_world:
  "mbedtls_transport_recv K (Some c) a = Inr r
   \<Longrightarrow> snd r = snd (engine_op K ssl_read a \<lparr>tls = c, trace = []\<rparr>)"
  by (auto simp add: mbedtls_transport_recv_def Let_def case_prod_beta split: if_splits)

lemma send_world:
  "mbedtls_transport_send K (Some c) a = Inr r
   \<Longrightarrow> snd r = snd (engine_op K ssl_write a \<lparr>tls = c, trace = []\<rparr>)"
  by (auto simp add: mbedtls_transport_send_def Let_def case_prod_beta split: if_splits)

lemma recv_tracks:
  assumes "mbedtls_transport_recv K (Some c) a = Inr r"
  shows "tracks (pxSocketContext c) (snd r)"
proof -
  have "tracks (pxSocketContext c) \<lparr>tls = c, trace = []\<rparr>" by (simp add: tracks_def)
  with calm_engine_op show ?thesis unfolding recv_world [OF assms] by (rule calm_tracks)
qed

lemma send_tracks:
  assumes "mbedtls_transport_send K (Some c) a = Inr r"
  shows "tracks (pxSocketContext c) (snd r)"
proof -
  have "tracks (pxSocketContext c) \<lparr>tls = c, trace = []\<rparr>" by (simp add: tracks_def)
  with calm_engine_op show ?thesis unfolding send_world [OF assms] by (rule calm_tracks)
qed

lemma apply_op_tracks:
  assumes "apply_op K operation c = Some (Inr w)"
  shows "tracks (pxSocketContext c) w"
proof (cases operation)
  case (OpConnect h p creds rt st env)
  with assms show ?thesis
    by (auto simp add: apply_op_def split: option.splits sum.splits dest: tracks_connect)
next
  case (OpDisconnect a)
  with assms show ?thesis
    by (auto simp add: apply_op_def split: option.splits sum.splits dest!: disconnect_tracks)
next
  case (OpRecv a)
  with assms show ?thesis
    by (auto simp add: apply_op_def split: option.splits sum.splits dest: recv_tracks)
next
  case (OpSend a)
  with assms show ?thesis
    by (auto simp add: apply_op_def split: option.splits sum.splits dest: send_tracks)
qed

lemma run_ops_tracks:
  "tracks cur0 w \<Longrightarrow> run_ops K ops w = Some (Inr w') \<Longrightarrow> tracks cur0 w'"
proof (induction ops arbitrary: w)
  case Nil
  then show ?case by simp
next
  case (Cons operation rest)
  from Cons.prems(2) obtain w1 where a: "apply_op K operation (tls w) = Some (Inr w1)"
    and r: "run_ops K rest \<lparr>tls = tls w1, trace = trace w @ trace w1\<rparr> = Some (Inr w')"
    by (auto split: option.splits sum.splits)
  have "tracks (pxSocketContext (tls w)) w1" using a by (rule apply_op_tracks)
  with Cons.prems(1) have "tracks cur0 \<lparr>tls = tls w1, trace = trace w @ trace w1\<rparr>"
    by (simp add: tracks_def sock_run_append)
  then show ?case using r by (rule Cons.IH)
qed

lemma run_ops_prefix:
  "run_ops K ops w = Some (Inr w') \<Longrightarrow> prefix (trace w) (trace w')"
proof (induction ops arbitrary: w)
  case Nil
  then show ?case by simp
next
  case (Cons operation rest)
  from Cons.prems obtain w1 where a: "apply_op K operation (tls w) = Some (Inr w1)"
    and r: "run_ops K rest \<lparr>tls = tls w1, trace = trace w @ trace w1\<rparr> = Some (Inr w')"
    by (auto split: option.splits sum.splits)
  have "prefix (trace w) (trace \<lparr>tls = tls w1, trace = trace w @ trace w1\<rparr>)" by simp
  then show ?case using Cons.IH [OF r] by (rule prefix_order.trans)
qed

lemma connect_socket_prefix:
  assumes "pxSocketContext (tls w) = Some old"
  shows "prefix (trace w @ [SockClose old, SockSocket (socket_ret env)])
           (trace (snd (connect_socket K env h p rt st s0 w)))"
  using assms
  by (auto simp add: connect_socket_def Let_def close_if_open_def emit_def
      split: prod.splits if_splits
      intro!: prefix_order.trans [OF _ calm_prefix [OF calm_initMbedtls]])

lemma connect_cleanup_prefix: "prefix (trace (snd r)) (trace (snd (connect_cleanup r)))"
  by (auto simp add: connect_cleanup_def
      intro: prefix_order.trans [OF calm_prefix [OF calm_tlsContextFree] prefix_close_if_open])

lemma connect_prefix:
  assumes "mbedtls_transport_connect K (Some c) h p creds rt st env = Some (Inr r)"
    and old: "pxSocketContext c = Some old"
  shows "prefix [SockClose old, SockSocket (socket_ret env)] (trace (snd r))"
proof -
  let ?r5 = "connect_socket K env h p rt st (connect_validate (Some c) h creds) \<lparr>tls = c, trace = []\<rparr>"
  have p5: "prefix [SockClose old, SockSocket (socket_ret env)] (trace (snd ?r5))"
    using connect_socket_prefix [of "\<lparr>tls = c, trace = []\<rparr>" old env K h p rt st] old by simp
  obtain s6 w6 where r6: "(if fst ?r5 = TLS_TRANSPORT_SUCCESS then tlsSetup K env h creds (snd ?r5)
      else Inr ?r5) = Inr (s6, w6)"
    using assms(1)
    by (auto simp add: mbedtls_transport_connect_def Let_def split: if_splits prod.splits sum.splits)
  have "prefix (trace (snd ?r5)) (trace w6)"
    using r6 by (auto split: if_splits dest!: calm_tlsSetup calm_prefix)
  with p5 have p6: "prefix [SockClose old, SockSocket (socket_ret env)] (trace w6)"
    by (rule prefix_order.trans)
  obtain r7 where r7: "(if s6 = TLS_TRANSPORT_SUCCESS then tlsHandshake K env creds w6
      else Some (Inr (s6, w6))) = Some (Inr r7)" and r: "r = connect_cleanup r7"
    using assms(1) r6
    by (auto simp add: mbedtls_transport_connect_def Let_def split: if_splits prod.splits sum.splits option.splits)
  have "prefix (trace w6) (trace (snd r7))"
    using r7 by (cases r7) (auto split: if_splits dest!: calm_tlsHandshake calm_prefix)
  with p6 have "prefix [SockClose old, SockSocket (socket_ret env)] (trace (snd r7))"
    by (rule prefix_order.trans)
  then show ?thesis unfolding r using connect_cleanup_prefix by (rule prefix_order.trans)
qed

text \<open>
  C7: a connect on a context that holds the open socket \<open>old\<close> first closes
  \<open>old\<close> through the socket interface and only then allocates a socket. In the calls
  of that connect after the close, and of every sequence of operations on the context
  after it, each call to the socket interface names a socket that a \<^verbatim>\<open>socket\<close> call
  after the close has returned and that is not closed yet (\<open>sock_run\<close> from no open
  socket), so \<open>old\<close> is not used again; the context ends with the socket these calls
  leave open.
\<close>

theorem C7_reconnect_closes_old_socket:
  assumes "pxSocketContext c = Some old"
    and "mbedtls_transport_connect K (Some c) pHostName port pNetworkCredentials
           receiveTimeoutMs sendTimeoutMs env = Some (Inr (s, w))"
    and "run_ops K ops w = Some (Inr w')"
  shows "\<exists>rest. trace w' = SockClose old # SockSocket (socket_ret env) # rest
           \<and> sock_run (SockSocket (socket_ret env) # rest) None = Some (pxSocketContext (tls w'))"
proof -
  have "prefix [SockClose old, SockSocket (socket_ret env)] (trace w)"
    using connect_prefix [OF assms(2) assms(1)] by simp
  then have "prefix [SockClose old, SockSocket (socket_ret env)] (trace w')"
    using run_ops_prefix [OF assms(3)] by (rule prefix_order.trans)
  then obtain rest where t: "trace w' = SockClose old # SockSocket (socket_ret env) # rest"
    by (auto simp add: prefix_def)
  have "tracks (Some old) w" using tracks_connect [OF assms(2)] assms(1) by simp
  then have "tracks (Some old) w'" using assms(3) by (rule run_ops_tracks)
  then have "sock_run (SockSocket (socket_ret env) # rest) None = Some (pxSocketContext (tls w'))"
    unfolding tracks_def t by simp
  with t show ?thesis by blast
qed

lemma apply_op_send:
  "\<exists>w. apply_op K (OpSend a) c = Some (Inr w) \<and> tls w = c"
  by (simp add: apply_op_def mbedtls_transport_send_def engine_op_def Let_def fold_bio_call
      engine_call_def emit_def)

lemma apply_op_recv:
  "\<exists>w. apply_op K (OpRecv a) c = Some (Inr w) \<and> tls w = c"
  by (simp add: apply_op_def mbedtls_transport_recv_def engine_op_def Let_def fold_bio_call
      engine_call_def emit_def)

lemma apply_op_disconnect:
  assumes "pxSocketContext c \<noteq> None \<Longrightarrow> pxSocketInterface c \<noteq> None"
  shows "\<exists>w. apply_op K (OpDisconnect a) c = Some (Inr w)"
  by (simp add: apply_op_def disconnect_explicit [OF assms])

theorem C7_reconnect_closes_old_socket_witness:
  "pxSocketContext established = Some 8
   \<and> (\<exists>s w w'.
         mbedtls_transport_connect newlib_mbedtls (Some established) (Some ''broker'') 8883
           (Some creds0) 1000 1000 env9 = Some (Inr (s, w))
       \<and> run_ops newlib_mbedtls [OpSend ([BioSend 5 0], 5), OpDisconnect ([], 0)] w
           = Some (Inr w')
       \<and> (\<exists>rest. trace w' = SockClose 8 # SockSocket (Some 9) # rest
             \<and> sock_run (SockSocket (Some 9) # rest) None = Some (pxSocketContext (tls w'))))"
proof -
  have old: "pxSocketContext established = Some 8" by (simp add: established_def)
  from connect_established obtain w where
    c: "mbedtls_transport_connect newlib_mbedtls (Some established) (Some ''broker'') 8883
          (Some creds0) 1000 1000 env9 = Some (Inr (TLS_TRANSPORT_SUCCESS, w))"
    and t: "tls w = established\<lparr>pxSocketContext := Some 9\<rparr>"
    by blast
  from apply_op_send [of newlib_mbedtls "([BioSend 5 0], 5)" "tls w"] obtain w1 where
    s: "apply_op newlib_mbedtls (OpSend ([BioSend 5 0], 5)) (tls w) = Some (Inr w1)"
    and t1: "tls w1 = tls w"
    by blast
  have "pxSocketInterface (tls w1) \<noteq> None" using t t1 by (simp add: established_def)
  from apply_op_disconnect [of "tls w1" newlib_mbedtls "([], 0)"] this obtain w2 where
    d: "apply_op newlib_mbedtls (OpDisconnect ([], 0)) (tls w1) = Some (Inr w2)"
    by blast
  have r: "run_ops newlib_mbedtls [OpSend ([BioSend 5 0], 5), OpDisconnect ([], 0)] w
      = Some (Inr \<lparr>tls = tls w2, trace = (trace w @ trace w1) @ trace w2\<rparr>)"
    using s d by simp
  have e: "socket_ret env9 = Some 9" by (simp add: env9_def)
  from C7_reconnect_closes_old_socket [OF old c r] show ?thesis
    using old c r e by auto
qed

subsection \<open>Allocation, teardown and failure\<close>

lemma connect_failure_closes:
  assumes "mbedtls_transport_connect K (Some c) h p creds rt st env = Some (Inr (s, w))"
    and "s \<noteq> TLS_TRANSPORT_SUCCESS"
  shows "pxSocketContext (tls w) = None"
proof -
  from assms(1) obtain r7 where "connect_cleanup r7 = (s, w)"
    by (auto simp add: mbedtls_transport_connect_def Let_def
        split: if_splits prod.splits sum.splits option.splits)
  with assms(2) show ?thesis
    by (cases r7) (auto simp add: connect_cleanup_def split: if_splits)
qed

text \<open>
  C10: a context that allocate returns for a socket interface is the zeroed context
  with that interface stored, so its socket handle is null, which is the socket the
  empty trace leaves open. Every sequence of connect, send, recv and disconnect calls
  that returns preserves the invariant that the handle of the context is the socket
  the calls so far leave open (\<open>sock_run\<close> from no open socket): non-null exactly from
  a \<^verbatim>\<open>socket\<close> call that returned it to the \<^verbatim>\<open>close\<close> of it. On any context, a
  disconnect that returns and a connect that returns a failure leave the handle null.
\<close>

theorem C10_socket_handle_invariant:
  assumes "mbedtls_transport_allocate uninitialised pvPortMalloc_ret (Some i) = Some c"
  shows "c = zeroed\<lparr>pxSocketInterface := Some i\<rparr> \<and> pxSocketContext c = None
    \<and> sock_run [] None = Some (pxSocketContext c)
    \<and> (\<forall>ops w w'. sock_run (trace w) None = Some (pxSocketContext (tls w))
          \<and> run_ops K ops w = Some (Inr w')
          \<longrightarrow> sock_run (trace w') None = Some (pxSocketContext (tls w')))
    \<and> (\<forall>c1 answer r. mbedtls_transport_disconnect K (Some c1) answer = Inr r
          \<longrightarrow> (\<exists>c2. fst r = Some c2 \<and> pxSocketContext c2 = None))
    \<and> (\<forall>c1 pHostName port pNetworkCredentials receiveTimeoutMs sendTimeoutMs env s w.
          mbedtls_transport_connect K (Some c1) pHostName port pNetworkCredentials
            receiveTimeoutMs sendTimeoutMs env = Some (Inr (s, w))
          \<and> s \<noteq> TLS_TRANSPORT_SUCCESS
          \<longrightarrow> pxSocketContext (tls w) = None)"
proof -
  have c: "c = zeroed\<lparr>pxSocketInterface := Some i\<rparr>"
    using assms by (auto simp add: mbedtls_transport_allocate_def split: option.splits)
  then have h: "pxSocketContext c = None" by (simp add: zeroed_def)
  have ops: "\<forall>ops w w'. sock_run (trace w) None = Some (pxSocketContext (tls w))
          \<and> run_ops K ops w = Some (Inr w')
          \<longrightarrow> sock_run (trace w') None = Some (pxSocketContext (tls w'))"
    using run_ops_tracks [of None, unfolded tracks_def] by blast
  have d: "\<forall>c1 answer r. mbedtls_transport_disconnect K (Some c1) answer = Inr r
          \<longrightarrow> (\<exists>c2. fst r = Some c2 \<and> pxSocketContext c2 = None)"
    using disconnect_tracks by (metis prod.collapse)
  show ?thesis using c h ops d connect_failure_closes by simp blast
qed

theorem C10_socket_handle_invariant_witness:
  "mbedtls_transport_allocate None (Some established) (Some 1) = Some fresh1
   \<and> pxSocketContext fresh1 = None
   \<and> (\<exists>w. run_ops newlib_mbedtls
              [OpConnect (Some ''broker'') 8883 (Some creds0) 1000 1000 env2,
               OpRecv ([BioRecv 3 0], 3), OpDisconnect ([], 0)]
              \<lparr>tls = fresh1, trace = []\<rparr> = Some (Inr w)
          \<and> sock_run (trace w) None = Some (pxSocketContext (tls w)))
   \<and> (\<exists>r c2. mbedtls_transport_disconnect newlib_mbedtls (Some established) ([], 0) = Inr r
          \<and> fst r = Some c2 \<and> pxSocketContext c2 = None)
   \<and> (\<exists>w. mbedtls_transport_connect newlib_mbedtls (Some established) None 8883 (Some creds0)
              1000 1000 env9 = Some (Inr (TLS_TRANSPORT_INVALID_PARAMETER, w))
          \<and> pxSocketContext (tls w) = None)"
proof -
  have a: "mbedtls_transport_allocate None (Some established) (Some 1) = Some fresh1"
    by (simp add: mbedtls_transport_allocate_def fresh1_def)
  note inv = C10_socket_handle_invariant [OF a, of newlib_mbedtls]
  have c: "\<exists>w. apply_op newlib_mbedtls
             (OpConnect (Some ''broker'') 8883 (Some creds0) 1000 1000 env2) fresh1
           = Some (Inr w) \<and> tls w = established"
    by (simp add: apply_op_def connect_fresh1)
  then obtain wc where c: "apply_op newlib_mbedtls
             (OpConnect (Some ''broker'') 8883 (Some creds0) 1000 1000 env2) fresh1
           = Some (Inr wc)" and tc: "tls wc = established"
    by blast
  from apply_op_recv [of newlib_mbedtls "([BioRecv 3 0], 3)" established] obtain w1 where
    r1: "apply_op newlib_mbedtls (OpRecv ([BioRecv 3 0], 3)) established = Some (Inr w1)"
    and t1: "tls w1 = established"
    by blast
  have "pxSocketInterface established \<noteq> None" by (simp add: established_def)
  from apply_op_disconnect [of established newlib_mbedtls "([], 0)"] this obtain w2 where
    d: "apply_op newlib_mbedtls (OpDisconnect ([], 0)) established = Some (Inr w2)"
    by blast
  have "\<exists>w. run_ops newlib_mbedtls
              [OpConnect (Some ''broker'') 8883 (Some creds0) 1000 1000 env2,
               OpRecv ([BioRecv 3 0], 3), OpDisconnect ([], 0)]
              \<lparr>tls = fresh1, trace = []\<rparr> = Some (Inr w)"
    using c tc r1 t1 d by simp
  then obtain w3 where r3: "run_ops newlib_mbedtls
              [OpConnect (Some ''broker'') 8883 (Some creds0) 1000 1000 env2,
               OpRecv ([BioRecv 3 0], 3), OpDisconnect ([], 0)]
              \<lparr>tls = fresh1, trace = []\<rparr> = Some (Inr w3)"
    by blast
  have s0: "sock_run (trace \<lparr>tls = fresh1, trace = []\<rparr>) None
      = Some (pxSocketContext (tls \<lparr>tls = fresh1, trace = []\<rparr>))"
    using inv by simp
  have "sock_run (trace w3) None = Some (pxSocketContext (tls w3))"
    using inv s0 r3 by blast
  with r3 have 1: "\<exists>w. run_ops newlib_mbedtls
              [OpConnect (Some ''broker'') 8883 (Some creds0) 1000 1000 env2,
               OpRecv ([BioRecv 3 0], 3), OpDisconnect ([], 0)]
              \<lparr>tls = fresh1, trace = []\<rparr> = Some (Inr w)
          \<and> sock_run (trace w) None = Some (pxSocketContext (tls w))"
    by blast
  have p: "pxSocketContext established \<noteq> None \<Longrightarrow> pxSocketInterface established \<noteq> None"
    by (simp add: established_def)
  have "\<exists>r. mbedtls_transport_disconnect newlib_mbedtls (Some established) ([], 0) = Inr r"
    by (simp add: disconnect_explicit [OF p])
  then have 2: "\<exists>r c2. mbedtls_transport_disconnect newlib_mbedtls (Some established) ([], 0)
            = Inr r \<and> fst r = Some c2 \<and> pxSocketContext c2 = None"
    using inv by blast
  have 3: "\<exists>w. mbedtls_transport_connect newlib_mbedtls (Some established) None 8883 (Some creds0)
              1000 1000 env9 = Some (Inr (TLS_TRANSPORT_INVALID_PARAMETER, w))
          \<and> pxSocketContext (tls w) = None"
    using inv connect_null_hostname by blast
  show ?thesis using a inv 1 2 3 by blast
qed

end
